theory Spec2Isabelle
  imports Complex_Main
begin

section \<open>Results of Go calls\<close>

text \<open>
  A Go \<^verbatim>\<open>error\<close> is modelled by its message. A call of the program ends in one of
  three ways: it returns a value with a nil error (\<open>Ok\<close>), it returns a non-nil error
  (\<open>Err\<close>), or it panics (\<open>Panic\<close>: an index out of range or a failed unchecked type
  assertion, which ends the process).
\<close>

type_synonym go_error = string

datatype 'a outcome = Ok 'a | Err go_error | Panic

definition bind :: "'a outcome \<Rightarrow> ('a \<Rightarrow> 'b outcome) \<Rightarrow> 'b outcome" where
  "bind m f = (case m of Ok x \<Rightarrow> f x | Err e \<Rightarrow> Err e | Panic \<Rightarrow> Panic)"

text \<open>\<^verbatim>\<open>xs[i]\<close> and \<^verbatim>\<open>xs[i:]\<close>: Go panics when the index is out of range.\<close>

definition index :: "'a list \<Rightarrow> nat \<Rightarrow> 'a outcome" where
  "index xs i = (if i < length xs then Ok (xs ! i) else Panic)"

definition slice_from :: "'a list \<Rightarrow> nat \<Rightarrow> 'a list outcome" where
  "slice_from xs i = (if i \<le> length xs then Ok (drop i xs) else Panic)"

section \<open>The functions of package strings the program calls\<close>

text \<open>
  Go strings are byte sequences, as \<^typ>\<open>string\<close> is. The program calls
  \<^verbatim>\<open>strings.Contains\<close>, \<^verbatim>\<open>strings.Split\<close> and \<^verbatim>\<open>strings.Join\<close> with the one-byte
  separators \<^verbatim>\<open>"/"\<close> and \<^verbatim>\<open>":"\<close> only, so the separator is a \<^typ>\<open>char\<close> here.
  \<^verbatim>\<open>strings.Split\<close> returns every piece between two separators, the empty ones too, and
  the whole string as the only piece when there is no separator.
\<close>

definition strings_Contains :: "string \<Rightarrow> char \<Rightarrow> bool" where
  "strings_Contains s sep = (sep \<in> set s)"

fun strings_Split :: "string \<Rightarrow> char \<Rightarrow> string list" where
  "strings_Split [] sep = [[]]"
| "strings_Split (c # cs) sep =
     (if c = sep then [] # strings_Split cs sep
      else (case strings_Split cs sep of
              [] \<Rightarrow> [[c]]
            | p # ps \<Rightarrow> (c # p) # ps))"

fun strings_Join :: "string list \<Rightarrow> char \<Rightarrow> string" where
  "strings_Join [] sep = []"
| "strings_Join [p] sep = p"
| "strings_Join (p # q # ps) sep = p @ sep # strings_Join (q # ps) sep"

section \<open>The reference parser\<close>

text \<open>
  \<^verbatim>\<open>urlToImageTag\<close> (docker-retag.go, lines 106 to 152) returns the registry, the image
  and the tag. Its error result is nil on every path.
\<close>

definition urlToImageTag :: "string \<Rightarrow> (string \<times> string \<times> string) outcome" where
  "urlToImageTag url =
     bind (if strings_Contains url CHR ''/'' then
             (let splitUrl = strings_Split url CHR ''/'' in
              bind (index splitUrl 0) (\<lambda>registry.
              bind (slice_from splitUrl 1) (\<lambda>rest.
              Ok (registry, strings_Join rest CHR ''/''))))
           else Ok (''index.docker.io'', url))
       (\<lambda>(registry, image).
          if strings_Contains image CHR '':'' then
            (let splitImage = strings_Split image CHR '':'' in
             bind (index splitImage 0) (\<lambda>image'.
             bind (index splitImage 1) (\<lambda>tag.
             Ok (registry, image', tag))))
          else Ok (registry, image, ''latest''))"

text \<open>
  The words of the specification: the repository path and tag portion of a reference is
  what follows the first \<^verbatim>\<open>/\<close>, or the whole reference when it has none; the host is what
  precedes the first \<^verbatim>\<open>/\<close>, or the default registry.
\<close>

definition host_portion :: "string \<Rightarrow> string" where
  "host_portion url =
     (if CHR ''/'' \<in> set url then takeWhile (\<lambda>c. c \<noteq> CHR ''/'') url else ''index.docker.io'')"

definition repo_portion :: "string \<Rightarrow> string" where
  "repo_portion url =
     (if CHR ''/'' \<in> set url then tl (dropWhile (\<lambda>c. c \<noteq> CHR ''/'') url) else url)"

definition before_first :: "char \<Rightarrow> string \<Rightarrow> string" where
  "before_first c s = takeWhile (\<lambda>x. x \<noteq> c) s"

definition after_first :: "char \<Rightarrow> string \<Rightarrow> string" where
  "after_first c s = tl (dropWhile (\<lambda>x. x \<noteq> c) s)"

definition before_last :: "char \<Rightarrow> string \<Rightarrow> string" where
  "before_last c s = rev (after_first c (rev s))"

definition after_last :: "char \<Rightarrow> string \<Rightarrow> string" where
  "after_last c s = rev (before_first c (rev s))"


section \<open>Base64, standard encoding\<close>

text \<open>
  \<^verbatim>\<open>base64.StdEncoding.EncodeToString\<close> of the Go library: three bytes give a 24-bit
  value whose four 6-bit groups index the alphabet; a last group of one or two bytes is
  padded with \<^verbatim>\<open>=\<close>. Shifts and masks are written as division and remainder.
\<close>

definition encodeStd :: string where
  "encodeStd = ''ABCDEFGHIJKLMNOPQRSTUVWXYZabcdefghijklmnopqrstuvwxyz0123456789+/''"

definition encode6 :: "nat \<Rightarrow> char" where
  "encode6 v = encodeStd ! (v mod 64)"

fun base64_EncodeToString :: "string \<Rightarrow> string" where
  "base64_EncodeToString [] = []"
| "base64_EncodeToString [a] =
     (let val = of_char a * 65536 in
      [encode6 (val div 262144), encode6 (val div 4096), CHR ''='', CHR ''=''])"
| "base64_EncodeToString [a, b] =
     (let val = of_char a * 65536 + of_char b * 256 in
      [encode6 (val div 262144), encode6 (val div 4096), encode6 (val div 64), CHR ''=''])"
| "base64_EncodeToString (a # b # c # rest) =
     (let val = of_char a * 65536 + of_char b * 256 + of_char c in
      [encode6 (val div 262144), encode6 (val div 4096), encode6 (val div 64), encode6 val]
      @ base64_EncodeToString rest)"

section \<open>Data of the program\<close>

text \<open>
  The \<^verbatim>\<open>Manifest\<close> struct (lines 25 to 38). Its \<^verbatim>\<open>Config\<close> and the elements of
  \<^verbatim>\<open>Layers\<close> are anonymous structs of one shape, the record \<open>Descriptor\<close>. Go's
  \<^verbatim>\<open>int\<close> fields are only stored and copied, so they are \<^typ>\<open>int\<close>. A Go slice can be
  nil, which the encoder writes differently from an empty slice: \<open>Layers\<close> is an option.
\<close>

record Descriptor =
  desc_MediaType :: string
  Digest :: string
  Size :: int

record Manifest =
  MediaType :: string
  SchemaVersion :: int
  Config :: Descriptor
  Layers :: "Descriptor list option"

text \<open>
  What \<^verbatim>\<open>json.Unmarshal\<close> stores in an \<^verbatim>\<open>interface{}\<close>: nil, a bool, a float64, a
  string, a slice or a \<^verbatim>\<open>map[string]interface{}\<close>. A map is the list of its entries,
  each key once.
\<close>

datatype json =
    JNull
  | JBool bool
  | JNumber real
  | JString string
  | JArray "json list"
  | JObject "(string \<times> json) list"

text \<open>\<^verbatim>\<open>m[k]\<close> on a map of interfaces: nil when the key is missing (or the map is nil).\<close>

definition lookup :: "(string \<times> json) list \<Rightarrow> string \<Rightarrow> json" where
  "lookup m k = (case map_of m k of None \<Rightarrow> JNull | Some v \<Rightarrow> v)"

text \<open>
  The unchecked type assertions \<^verbatim>\<open>x.(map[string]interface{})\<close> and \<^verbatim>\<open>x.(string)\<close>:
  a panic unless the value has that dynamic type; nil has none.
\<close>

definition assert_map :: "json \<Rightarrow> (string \<times> json) list outcome" where
  "assert_map x = (case x of JObject m \<Rightarrow> Ok m | _ \<Rightarrow> Panic)"

definition assert_string :: "json \<Rightarrow> string outcome" where
  "assert_string x = (case x of JString s \<Rightarrow> Ok s | _ \<Rightarrow> Panic)"

record request =
  Method :: string
  URL :: string
  Header :: "(string \<times> string) list"
  Body :: "string option"

text \<open>
  A response as the program reads it: the status code, the status text, and the result of
  \<^verbatim>\<open>ioutil.ReadAll(resp.Body)\<close>.
\<close>

record response =
  StatusCode :: int
  Status :: string
  ReadAll_Body :: "go_error + string"

text \<open>
  Everything the program reads from outside itself: the package variables
  \<^verbatim>\<open>Username\<close> and \<^verbatim>\<open>Password\<close> (set from the flags), the environment, the file
  system, the HTTP client, and the library calls whose code is not the program's
  (\<^verbatim>\<open>json.Unmarshal\<close> into a map and into a \<^verbatim>\<open>Manifest\<close>, \<^verbatim>\<open>json.Marshal\<close> of a
  \<^verbatim>\<open>Manifest\<close>, and the error of \<^verbatim>\<open>http.NewRequest\<close> for a method and a URL).
  An error result is \<open>Inl\<close>; \<open>Stat\<close> and \<open>NewRequest_error\<close> give the error, \<open>None\<close> for nil.
\<close>

record world =
  Username :: string
  Password :: string
  Getenv :: "string \<Rightarrow> string"
  Stat :: "string \<Rightarrow> go_error option"
  ReadFile :: "string \<Rightarrow> go_error + string"
  Unmarshal_map :: "string \<Rightarrow> go_error + (string \<times> json) list"
  Unmarshal_Manifest :: "string \<Rightarrow> go_error + Manifest"
  Marshal_Manifest :: "Manifest \<Rightarrow> go_error + string"
  NewRequest_error :: "string \<Rightarrow> string \<Rightarrow> go_error option"
  Do :: "request \<Rightarrow> go_error + response"

section \<open>The credential resolver\<close>

definition registryProtocol :: "world \<Rightarrow> string \<Rightarrow> string" where
  "registryProtocol w registry =
     (if Getenv w ''INSECURE_REGISTRY'' = ''true'' then ''http'' else ''https'')"

text \<open>
  \<^verbatim>\<open>registryAuth\<close> (lines 53 to 104). \<open>dockerConfigAuth\<close> is its last part, from line 71
  on: the credential store file. The test \<^verbatim>\<open>auth == nil\<close> of line 95 is on a map that a
  type assertion has just returned, which is never nil; only \<^verbatim>\<open>auth["auth"] == nil\<close>
  can hold there.
\<close>

definition dockerConfigAuth :: "world \<Rightarrow> string \<Rightarrow> string outcome" where
  "dockerConfigAuth w registry =
     (let dockerConfig = Getenv w ''HOME'' @ ''/.docker/config.json'' in
      case Stat w dockerConfig of
        Some err \<Rightarrow> Ok []
      | None \<Rightarrow>
          (case ReadFile w dockerConfig of
             Inl err \<Rightarrow> Err err
           | Inr bd \<Rightarrow>
               (case Unmarshal_map w bd of
                  Inl err \<Rightarrow> Err err
                | Inr dc \<Rightarrow>
                    bind (assert_map (lookup dc ''auths'')) (\<lambda>auths.
                    bind (assert_map (lookup auths registry)) (\<lambda>auth.
                    if lookup auth ''auth'' = JNull then Ok []
                    else bind (assert_string (lookup auth ''auth'')) (\<lambda>authString.
                         Ok authString))))))"

definition registryAuth :: "world \<Rightarrow> string \<Rightarrow> string outcome" where
  "registryAuth w registry =
     (if Username w \<noteq> [] \<and> Password w \<noteq> [] then
        Ok (base64_EncodeToString (Username w @ '':'' @ Password w))
      else if Getenv w ''DOCKER_USER'' \<noteq> [] \<and> Getenv w ''DOCKER_PASS'' \<noteq> [] then
        Ok (base64_EncodeToString (Getenv w ''DOCKER_USER'' @ '':'' @ Getenv w ''DOCKER_PASS''))
      else dockerConfigAuth w registry)"

section \<open>The registry client\<close>

definition http_NewRequest :: "world \<Rightarrow> string \<Rightarrow> string \<Rightarrow> string option \<Rightarrow> request outcome" where
  "http_NewRequest w method url body =
     (case NewRequest_error w method url of
        Some err \<Rightarrow> Err err
      | None \<Rightarrow> Ok \<lparr>Method = method, URL = url, Header = [], Body = body\<rparr>)"

definition Header_Add :: "request \<Rightarrow> string \<Rightarrow> string \<Rightarrow> request" where
  "Header_Add req k v = req\<lparr>Header := Header req @ [(k, v)]\<rparr>"

definition manifestUrl :: "string \<Rightarrow> string \<Rightarrow> string \<Rightarrow> string \<Rightarrow> string" where
  "manifestUrl protocol registry img tag =
     protocol @ ''://'' @ registry @ ''/v2/'' @ img @ ''/manifests/'' @ tag"

text \<open>
  \<^verbatim>\<open>getManifest\<close> (lines 154 to 213) in two parts: \<open>getManifest_request\<close> is lines 162
  to 190, which build the request; \<open>getManifest\<close> sends it and reads the answer.
\<close>

definition getManifest_request :: "world \<Rightarrow> string \<Rightarrow> request outcome" where
  "getManifest_request w url =
     bind (urlToImageTag url) (\<lambda>(registry, image, tag).
     let protocol = registryProtocol w registry in
     bind (registryAuth w registry) (\<lambda>auth.
     bind (http_NewRequest w ''GET'' (manifestUrl protocol registry image tag) None) (\<lambda>req.
     let req = Header_Add req ''Accept'' ''application/vnd.docker.distribution.manifest.v2+json'' in
     Ok (if auth \<noteq> [] then Header_Add req ''Authorization'' (''Basic '' @ auth) else req))))"

definition getManifest :: "world \<Rightarrow> string \<Rightarrow> Manifest outcome" where
  "getManifest w url =
     bind (getManifest_request w url) (\<lambda>req.
     case Do w req of
       Inl err \<Rightarrow> Err err
     | Inr resp \<Rightarrow>
         (case ReadAll_Body resp of
            Inl err \<Rightarrow> Err err
          | Inr bd \<Rightarrow>
              if StatusCode resp \<noteq> 200 then Err (Status resp)
              else (case Unmarshal_Manifest w bd of
                      Inl err \<Rightarrow> Err err
                    | Inr m \<Rightarrow> Ok m)))"

text \<open>
  \<^verbatim>\<open>uploadManifest\<close> (lines 215 to 275), likewise: \<open>uploadManifest_request\<close> is lines
  222 to 257.
\<close>

definition uploadManifest_request :: "world \<Rightarrow> string \<Rightarrow> Manifest \<Rightarrow> request outcome" where
  "uploadManifest_request w url manifest =
     bind (urlToImageTag url) (\<lambda>(registry, image, tag).
     let protocol = registryProtocol w registry in
     bind (registryAuth w registry) (\<lambda>auth.
     case Marshal_Manifest w manifest of
       Inl err \<Rightarrow> Err err
     | Inr jd \<Rightarrow>
         bind (http_NewRequest w ''PUT'' (manifestUrl protocol registry image tag) (Some jd)) (\<lambda>req.
         let req = Header_Add req ''Content-Type'' (MediaType manifest) in
         Ok (if auth \<noteq> [] then Header_Add req ''Authorization'' (''Basic '' @ auth) else req))))"

definition uploadManifest :: "world \<Rightarrow> string \<Rightarrow> Manifest \<Rightarrow> unit outcome" where
  "uploadManifest w url manifest =
     bind (uploadManifest_request w url manifest) (\<lambda>req.
     case Do w req of
       Inl err \<Rightarrow> Err err
     | Inr resp \<Rightarrow>
         (case ReadAll_Body resp of
            Inl err \<Rightarrow> Err err
          | Inr bd \<Rightarrow>
              if StatusCode resp \<noteq> 201 then Err (Status resp) else Ok ()))"


section \<open>The orchestrator\<close>

record UploadJob =
  Manifest :: Manifest
  Image :: string

text \<open>
  How a run of \<^verbatim>\<open>main\<close> ends: it returns (\<open>Success\<close>), it prints the version and
  exits with 0, it prints the usage and exits with 1, it logs the error of the fetch or of
  an upload and exits with 1, a panic ends the process, or it waits for a result that no
  worker sends.
\<close>

datatype exit =
    Success
  | Version
  | Usage
  | FetchFailed go_error
  | UploadFailed go_error
  | Crashed
  | Blocked

text \<open>
  What is known of a run when it ends: how it ended, the number of workers started, the
  jobs sent on the \<^verbatim>\<open>jobs\<close> channel, and the number of results received from the
  \<^verbatim>\<open>results\<close> channel. Only a worker calls \<^verbatim>\<open>uploadManifest\<close>, once for each job it
  receives.
\<close>

record run =
  status :: exit
  workers :: nat
  jobs :: "UploadJob list"
  collected :: nat

text \<open>What a worker does with one job (\<^verbatim>\<open>manifestUploadWorker\<close>, lines 290 to 295).\<close>

definition manifestUploadWorker :: "world \<Rightarrow> UploadJob \<Rightarrow> unit outcome" where
  "manifestUploadWorker w j = uploadManifest w (Image j) (Manifest j)"

text \<open>
  The collection loop (lines 374 to 380), on the results in the order they arrive:
  \<open>i\<close> is the loop counter, \<open>n\<close> is \<^verbatim>\<open>len(newImages)\<close>. A worker that panics sends
  nothing: the process ends there.
\<close>

fun collect :: "nat \<Rightarrow> nat \<Rightarrow> unit outcome list \<Rightarrow> exit \<times> nat" where
  "collect i n [] = (if i < n then (Blocked, i) else (Success, i))"
| "collect i n (r # rs) =
     (if i < n then
        (case r of
           Ok u \<Rightarrow> collect (Suc i) n rs
         | Err err \<Rightarrow> (UploadFailed err, Suc i)
         | Panic \<Rightarrow> (Crashed, i))
      else (Success, i))"

text \<open>
  \<^verbatim>\<open>main\<close> from line 323 on, with \<^verbatim>\<open>Username\<close> and \<^verbatim>\<open>Password\<close> already set in the
  world. The workers run concurrently: \<open>sched\<close> is the order in which the results of the
  dispatched jobs reach the \<^verbatim>\<open>results\<close> channel (a permutation of the jobs, chosen by
  the scheduler and the network).
\<close>

definition main :: "world \<Rightarrow> (UploadJob list \<Rightarrow> UploadJob list) \<Rightarrow> bool \<Rightarrow> string list \<Rightarrow> run" where
  "main w sched versionFlag args =
     (if versionFlag then \<lparr>status = Version, workers = 0, jobs = [], collected = 0\<rparr>
      else if length args < 2 then \<lparr>status = Usage, workers = 0, jobs = [], collected = 0\<rparr>
      else
        (let img = args ! 0; newImages = drop 1 args in
         case getManifest w img of
           Err err \<Rightarrow> \<lparr>status = FetchFailed err, workers = 0, jobs = [], collected = 0\<rparr>
         | Panic \<Rightarrow> \<lparr>status = Crashed, workers = 0, jobs = [], collected = 0\<rparr>
         | Ok manifest \<Rightarrow>
             (let workers = (if length newImages < 10 then length newImages else 10);
                  jobs = map (\<lambda>newImage. \<lparr>Manifest = manifest, Image = newImage\<rparr>) newImages;
                  results = map (manifestUploadWorker w) (sched jobs);
                  (st, k) = collect 0 (length newImages) results
              in \<lparr>status = st, workers = workers, jobs = jobs, collected = k\<rparr>)))"

section \<open>Notions of the specification\<close>

text \<open>
  A credential source is present when both its user name and its password are non-empty;
  the store holds a credential for a host when the file exists, can be read and parsed,
  and its \<^verbatim>\<open>auths\<close> object has an object for the host whose \<^verbatim>\<open>auth\<close> is a string.
\<close>

definition explicit_present :: "world \<Rightarrow> bool" where
  "explicit_present w = (Username w \<noteq> [] \<and> Password w \<noteq> [])"

definition environment_present :: "world \<Rightarrow> bool" where
  "environment_present w = (Getenv w ''DOCKER_USER'' \<noteq> [] \<and> Getenv w ''DOCKER_PASS'' \<noteq> [])"

definition store_path :: "world \<Rightarrow> string" where
  "store_path w = Getenv w ''HOME'' @ ''/.docker/config.json''"

definition store_exists :: "world \<Rightarrow> bool" where
  "store_exists w = (Stat w (store_path w) = None)"

definition store_credential :: "world \<Rightarrow> string \<Rightarrow> string option" where
  "store_credential w host =
     (if store_exists w then
        (case ReadFile w (store_path w) of
           Inl e \<Rightarrow> None
         | Inr text \<Rightarrow>
             (case Unmarshal_map w text of
                Inl e \<Rightarrow> None
              | Inr config \<Rightarrow>
                  (case map_of config ''auths'' of
                     Some (JObject auths) \<Rightarrow>
                       (case map_of auths host of
                          Some (JObject entry) \<Rightarrow>
                            (case map_of entry ''auth'' of
                               Some (JString token) \<Rightarrow> Some token
                             | _ \<Rightarrow> None)
                        | _ \<Rightarrow> None)
                   | _ \<Rightarrow> None)))
      else None)"

section \<open>An example registry\<close>

text \<open>
  A world for the examples: no credentials, no credential store, a registry that serves
  the manifest of \<^verbatim>\<open>registry.example.com/hello-world:v1\<close>, accepts the tags
  \<^verbatim>\<open>main\<close> and \<^verbatim>\<open>latest\<close> and refuses every other request. The two codec functions
  are those of the library on this one manifest.
\<close>

definition example_manifest :: Manifest where
  "example_manifest =
     \<lparr>MediaType = ''application/vnd.docker.distribution.manifest.v2+json'',
      SchemaVersion = 2,
      Config = \<lparr>desc_MediaType = ''application/vnd.docker.container.image.v1+json'',
                Digest = ''sha256:feb5d9fea6a5'', Size = 1469\<rparr>,
      Layers = Some [\<lparr>desc_MediaType = ''application/vnd.docker.image.rootfs.diff.tar.gzip'',
                      Digest = ''sha256:2db29710123e'', Size = 2479\<rparr>]\<rparr>"

definition example_body :: string where
  "example_body =
     ''{\"mediaType\":\"application/vnd.docker.distribution.manifest.v2+json\",'' @
     ''\"schemaVersion\":2,'' @
     ''\"config\":{\"mediaType\":\"application/vnd.docker.container.image.v1+json\",'' @
     ''\"digest\":\"sha256:feb5d9fea6a5\",\"size\":1469},'' @
     ''\"layers\":[{\"mediaType\":\"application/vnd.docker.image.rootfs.diff.tar.gzip\",'' @
     ''\"digest\":\"sha256:2db29710123e\",\"size\":2479}]}''"

definition example_registry :: "request \<Rightarrow> go_error + response" where
  "example_registry req =
     (if Method req = ''GET'' then
        (if URL req = ''https://registry.example.com/v2/hello-world/manifests/v1''
         then Inr \<lparr>StatusCode = 200, Status = ''200 OK'', ReadAll_Body = Inr example_body\<rparr>
         else Inr \<lparr>StatusCode = 404, Status = ''404 Not Found'', ReadAll_Body = Inr []\<rparr>)
      else if URL req = ''https://registry.example.com/v2/hello-world/manifests/main''
            \<or> URL req = ''https://registry.example.com/v2/hello-world/manifests/latest''
      then Inr \<lparr>StatusCode = 201, Status = ''201 Created'', ReadAll_Body = Inr []\<rparr>
      else Inr \<lparr>StatusCode = 500, Status = ''500 Internal Server Error'', ReadAll_Body = Inr []\<rparr>)"

definition example_world :: world where
  "example_world =
     \<lparr>Username = [], Password = [],
      Getenv = (\<lambda>k. []),
      Stat = (\<lambda>p. Some ''no such file or directory''),
      ReadFile = (\<lambda>p. Inl ''no such file or directory''),
      Unmarshal_map = (\<lambda>bd. Inl ''unexpected end of JSON input''),
      Unmarshal_Manifest =
        (\<lambda>bd. if bd = example_body then Inr example_manifest
              else Inl ''unexpected end of JSON input''),
      Marshal_Manifest =
        (\<lambda>m. if m = example_manifest then Inr example_body else Inl ''not in the example''),
      NewRequest_error = (\<lambda>method url. None),
      Do = example_registry\<rparr>"

text \<open>
  The same world with a credential store at \<^verbatim>\<open>/home/dev/.docker/config.json\<close> that
  holds a credential for \<^verbatim>\<open>other.example.com\<close> only.
\<close>

definition example_config :: string where
  "example_config = ''{\"auths\":{\"other.example.com\":{\"auth\":\"dXNlcjpwYXNz\"}}}''"

definition store_world :: world where
  "store_world =
     example_world
       \<lparr>Getenv := (\<lambda>k. if k = ''HOME'' then ''/home/dev'' else []),
        Stat := (\<lambda>p. if p = ''/home/dev/.docker/config.json'' then None
                      else Some ''no such file or directory''),
        ReadFile := (\<lambda>p. if p = ''/home/dev/.docker/config.json'' then Inr example_config
                          else Inl ''no such file or directory''),
        Unmarshal_map :=
          (\<lambda>bd. if bd = example_config
                then Inr [(''auths'',
                           JObject [(''other.example.com'',
                                     JObject [(''auth'', JString ''dXNlcjpwYXNz'')])])]
                else Inl ''unexpected end of JSON input'')\<rparr>"


text \<open>
  Worlds where every credential source is present for \<^verbatim>\<open>other.example.com\<close>, where
  the store cannot be read, where the store is not valid JSON, and where the registry
  cannot be reached.
\<close>

definition credentials_world :: world where
  "credentials_world =
     store_world
       \<lparr>Username := ''user'', Password := ''secret'',
        Getenv := (\<lambda>k. if k = ''HOME'' then ''/home/dev''
                        else if k = ''DOCKER_USER'' then ''envuser''
                        else if k = ''DOCKER_PASS'' then ''envpass''
                        else [])\<rparr>"

definition unreadable_world :: world where
  "unreadable_world = store_world\<lparr>ReadFile := (\<lambda>p. Inl ''permission denied'')\<rparr>"

definition unparsable_world :: world where
  "unparsable_world =
     store_world
       \<lparr>ReadFile := (\<lambda>p. if p = ''/home/dev/.docker/config.json'' then Inr ''{\"auths\":''
                          else Inl ''no such file or directory''),
        Unmarshal_map := (\<lambda>bd. Inl ''unexpected end of JSON input'')\<rparr>"

definition offline_world :: world where
  "offline_world = example_world\<lparr>Do := (\<lambda>req. Inl ''dial tcp: connection refused'')\<rparr>"

section \<open>A credential store that cannot be reached\<close>

text \<open>
  The worlds of the examples give the error of \<^verbatim>\<open>os.Stat\<close> by the message of its
  cause: \<^verbatim>\<open>no such file or directory\<close> when the file is not there (the errors for which
  \<^verbatim>\<open>os.IsNotExist\<close> holds), \<^verbatim>\<open>permission denied\<close> when the file is there and the
  directory that holds it may not be searched. The store is missing when \<^verbatim>\<open>os.Stat\<close>
  fails with the first; it is there and cannot be reached when \<^verbatim>\<open>os.Stat\<close> fails with
  another error.
\<close>

definition os_IsNotExist :: "go_error \<Rightarrow> bool" where
  "os_IsNotExist err = (err = ''no such file or directory'')"

definition store_missing :: "world \<Rightarrow> bool" where
  "store_missing w =
     (case Stat w (store_path w) of None \<Rightarrow> False | Some err \<Rightarrow> os_IsNotExist err)"

definition store_unreachable :: "world \<Rightarrow> bool" where
  "store_unreachable w =
     (case Stat w (store_path w) of None \<Rightarrow> False | Some err \<Rightarrow> \<not> os_IsNotExist err)"

definition unreachable_world :: world where
  "unreachable_world =
     store_world
       \<lparr>Stat := (\<lambda>p. Some ''permission denied''),
        ReadFile := (\<lambda>p. Inl ''permission denied'')\<rparr>"

section \<open>The JSON form of a manifest\<close>

text \<open>
  A JSON text as \<^verbatim>\<open>encoding/json\<close> reads it: the members of an object in the order of
  the text, a number either as the integer that \<^verbatim>\<open>strconv.ParseInt\<close> reads from its
  literal (base 10, 64 bits) or, when that fails, as the literal, and a string with its
  escapes resolved.
\<close>

datatype jdoc =
    DNull
  | DBool bool
  | DInt int
  | DFloat string
  | DString string
  | DArray "jdoc list"
  | DObject "(string \<times> jdoc) list"

text \<open>
  \<^verbatim>\<open>json.Marshal\<close> of the \<^verbatim>\<open>Manifest\<close> struct: one member for each field, in the
  order of the declaration, under the name of its \<^verbatim>\<open>json\<close> tag (lines 25 to 38); a nil
  slice is written \<^verbatim>\<open>null\<close>. The strings of a manifest that \<^verbatim>\<open>json.Unmarshal\<close> has
  stored are valid UTF-8, which the encoder writes as they are.
\<close>

definition encode_Descriptor :: "Descriptor \<Rightarrow> jdoc" where
  "encode_Descriptor d =
     DObject [(''mediaType'', DString (desc_MediaType d)),
              (''digest'', DString (Digest d)),
              (''size'', DInt (Size d))]"

definition encode_Manifest :: "Manifest \<Rightarrow> jdoc" where
  "encode_Manifest m =
     DObject [(''mediaType'', DString (MediaType m)),
              (''schemaVersion'', DInt (SchemaVersion m)),
              (''config'', encode_Descriptor (Config m)),
              (''layers'', (case Layers m of
                              None \<Rightarrow> DNull
                            | Some ls \<Rightarrow> DArray (map encode_Descriptor ls)))]"

text \<open>
  \<^verbatim>\<open>json.Unmarshal\<close> into the struct finds the field of a member by its tag, exactly or
  else without regard to case; the folding of the decoder also reads the long s
  (U+017F) as \<^verbatim>\<open>s\<close> and the Kelvin sign (U+212A) as \<^verbatim>\<open>k\<close>. \<open>fold_key\<close> is a key
  under that folding, bytewise on its UTF-8.
\<close>

definition lower :: "char \<Rightarrow> char" where
  "lower c =
     (case map_of (zip ''ABCDEFGHIJKLMNOPQRSTUVWXYZ'' ''abcdefghijklmnopqrstuvwxyz'') c of
        None \<Rightarrow> c
      | Some l \<Rightarrow> l)"

fun fold_key :: "string \<Rightarrow> string" where
  "fold_key [] = []"
| "fold_key [c] = [lower c]"
| "fold_key [c, d] =
     (if c = CHR 0xC5 \<and> d = CHR 0xBF then ''s'' else lower c # fold_key [d])"
| "fold_key (c # d # e # cs) =
     (if c = CHR 0xC5 \<and> d = CHR 0xBF then CHR ''s'' # fold_key (e # cs)
      else if c = CHR 0xE2 \<and> d = CHR 0x84 \<and> e = CHR 0xAA then CHR ''k'' # fold_key cs
      else lower c # fold_key (d # e # cs))"

text \<open>
  The value that a field receives from the members of an object: that of the member
  whose key is the field's tag under the folding. A field without a member, and a field
  whose member is \<^verbatim>\<open>null\<close>, keeps its zero value. A member of another JSON type than the
  field's is an \<^verbatim>\<open>UnmarshalTypeError\<close> (\<open>None\<close> here). This is the decoder on a text
  none of whose objects has two members for one field (\<open>plain\<close>).
\<close>

definition member :: "string \<Rightarrow> (string \<times> jdoc) list \<Rightarrow> jdoc" where
  "member tag ms =
     (case find (\<lambda>(k, v). fold_key k = fold_key tag) ms of
        None \<Rightarrow> DNull
      | Some (k, v) \<Rightarrow> v)"

definition decode_string :: "jdoc \<Rightarrow> string option" where
  "decode_string v = (case v of DString s \<Rightarrow> Some s | DNull \<Rightarrow> Some [] | _ \<Rightarrow> None)"

definition decode_int :: "jdoc \<Rightarrow> int option" where
  "decode_int v = (case v of DInt n \<Rightarrow> Some n | DNull \<Rightarrow> Some 0 | _ \<Rightarrow> None)"

definition decode_Descriptor :: "jdoc \<Rightarrow> Descriptor option" where
  "decode_Descriptor v =
     (case v of
        DObject ms \<Rightarrow>
          (case (decode_string (member ''mediaType'' ms),
                 decode_string (member ''digest'' ms),
                 decode_int (member ''size'' ms)) of
             (Some mt, Some dg, Some sz) \<Rightarrow>
               Some \<lparr>desc_MediaType = mt, Digest = dg, Size = sz\<rparr>
           | _ \<Rightarrow> None)
      | DNull \<Rightarrow> Some \<lparr>desc_MediaType = [], Digest = [], Size = 0\<rparr>
      | _ \<Rightarrow> None)"

definition decode_Layers :: "jdoc \<Rightarrow> Descriptor list option option" where
  "decode_Layers v =
     (case v of
        DArray vs \<Rightarrow> map_option Some (those (map decode_Descriptor vs))
      | DNull \<Rightarrow> Some None
      | _ \<Rightarrow> None)"

definition decode_Manifest :: "jdoc \<Rightarrow> Manifest option" where
  "decode_Manifest v =
     (case v of
        DObject ms \<Rightarrow>
          (case (decode_string (member ''mediaType'' ms),
                 decode_int (member ''schemaVersion'' ms),
                 decode_Descriptor (member ''config'' ms),
                 decode_Layers (member ''layers'' ms)) of
             (Some mt, Some sv, Some cfg, Some ls) \<Rightarrow>
               Some \<lparr>MediaType = mt, SchemaVersion = sv, Config = cfg, Layers = ls\<rparr>
           | _ \<Rightarrow> None)
      | DNull \<Rightarrow>
          Some \<lparr>MediaType = [], SchemaVersion = 0,
                Config = \<lparr>desc_MediaType = [], Digest = [], Size = 0\<rparr>, Layers = None\<rparr>
      | _ \<Rightarrow> None)"

fun plain :: "jdoc \<Rightarrow> bool" where
  "plain (DObject ms) =
     (distinct (map (\<lambda>(k, v). fold_key k) ms) \<and> (\<forall>(k, v) \<in> set ms. plain v))"
| "plain (DArray vs) = (\<forall>v \<in> set vs. plain v)"
| "plain v = True"

text \<open>
  The library in a world: \<open>parse\<close> and \<open>render\<close> are its reader and writer of JSON
  texts. \<^verbatim>\<open>json.Unmarshal\<close> into a \<^verbatim>\<open>Manifest\<close> fails where the text does not parse, and
  on a plain text it decodes as above; \<^verbatim>\<open>json.Marshal\<close> of the manifest \<open>m\<close> writes its
  encoding, which reads back as it was written.
\<close>

definition library_decodes :: "world \<Rightarrow> (string \<Rightarrow> go_error + jdoc) \<Rightarrow> bool" where
  "library_decodes w parse =
     (\<forall>bd d. parse bd = Inr d \<and> plain d \<longrightarrow>
        (case decode_Manifest d of
           Some m \<Rightarrow> Unmarshal_Manifest w bd = Inr m
         | None \<Rightarrow> (\<exists>err. Unmarshal_Manifest w bd = Inl err)))"

definition library_encodes ::
  "world \<Rightarrow> (string \<Rightarrow> go_error + jdoc) \<Rightarrow> (jdoc \<Rightarrow> string) \<Rightarrow> Manifest \<Rightarrow> bool" where
  "library_encodes w parse render m =
     (Marshal_Manifest w m = Inr (render (encode_Manifest m))
      \<and> parse (render (encode_Manifest m)) = Inr (encode_Manifest m))"

text \<open>
  The manifest of the wire protocol (image manifest, schema 2) as a JSON text in its
  usual form: the four members \<^verbatim>\<open>mediaType\<close>, \<^verbatim>\<open>schemaVersion\<close>, \<^verbatim>\<open>config\<close> and
  \<^verbatim>\<open>layers\<close>, a descriptor with the three members \<^verbatim>\<open>mediaType\<close>, \<^verbatim>\<open>digest\<close> and
  \<^verbatim>\<open>size\<close>.
\<close>

definition descriptor_text :: "string \<times> string \<times> int \<Rightarrow> jdoc" where
  "descriptor_text x =
     (case x of (mt, dg, sz) \<Rightarrow>
        DObject [(''mediaType'', DString mt), (''digest'', DString dg), (''size'', DInt sz)])"

definition manifest_text ::
  "string \<Rightarrow> int \<Rightarrow> string \<times> string \<times> int \<Rightarrow> (string \<times> string \<times> int) list \<Rightarrow> jdoc" where
  "manifest_text mt sv cfg ls =
     DObject [(''mediaType'', DString mt), (''schemaVersion'', DInt sv),
              (''config'', descriptor_text cfg),
              (''layers'', DArray (map descriptor_text ls))]"

text \<open>The reader and the writer of the example world, which knows one text.\<close>

definition example_parse :: "string \<Rightarrow> go_error + jdoc" where
  "example_parse bd =
     (if bd = example_body
      then Inr (manifest_text ''application/vnd.docker.distribution.manifest.v2+json'' 2
                 (''application/vnd.docker.container.image.v1+json'', ''sha256:feb5d9fea6a5'', 1469)
                 [(''application/vnd.docker.image.rootfs.diff.tar.gzip'', ''sha256:2db29710123e'', 2479)])
      else Inl ''unexpected end of JSON input'')"

definition example_render :: "jdoc \<Rightarrow> string" where
  "example_render d =
     (if d = manifest_text ''application/vnd.docker.distribution.manifest.v2+json'' 2
               (''application/vnd.docker.container.image.v1+json'', ''sha256:feb5d9fea6a5'', 1469)
               [(''application/vnd.docker.image.rootfs.diff.tar.gzip'', ''sha256:2db29710123e'', 2479)]
      then example_body else [])"

section \<open>Properties of the reference parser\<close>

lemma strings_Split_nonempty: "strings_Split s c \<noteq> []"
  by (induction s) (auto split: list.splits)

lemma strings_Split_unfold:
  "strings_Split s c =
     before_first c s # (if c \<in> set s then strings_Split (after_first c s) c else [])"
  by (induction s)
    (auto simp: before_first_def after_first_def strings_Split_nonempty split: list.splits)

lemma strings_Join_Split: "strings_Join (strings_Split s c) c = s"
proof (induction s)
  case Nil
  then show ?case by simp
next
  case (Cons x xs)
  obtain p ps where sp: "strings_Split xs c = p # ps"
    using strings_Split_nonempty [of xs c] by (cases "strings_Split xs c") auto
  show ?case
  proof (cases "x = c")
    case True
    with Cons sp show ?thesis by simp
  next
    case False
    with Cons sp show ?thesis by (cases ps) auto
  qed
qed

text \<open>
  The parser in closed form: it never fails, the image is what precedes the first colon
  of the repository portion, and the tag is what lies between the first colon and the
  second one (or the end).
\<close>

lemma urlToImageTag_eq:
  "urlToImageTag url =
     Ok (host_portion url,
         before_first CHR '':'' (repo_portion url),
         if CHR '':'' \<in> set (repo_portion url)
         then before_first CHR '':'' (after_first CHR '':'' (repo_portion url))
         else ''latest'')"
proof -
  let ?sl = "CHR ''/''" and ?co = "CHR '':''"
  have first: "(if strings_Contains url ?sl then
             (let splitUrl = strings_Split url ?sl in
              bind (index splitUrl 0) (\<lambda>registry.
              bind (slice_from splitUrl 1) (\<lambda>rest.
              Ok (registry, strings_Join rest ?sl))))
           else Ok (''index.docker.io'', url)) = Ok (host_portion url, repo_portion url)"
  proof (cases "?sl \<in> set url")
    case True
    have "strings_Split url ?sl = before_first ?sl url # strings_Split (after_first ?sl url) ?sl"
      using True by (subst strings_Split_unfold) simp
    then show ?thesis
      using True
      by (simp add: strings_Contains_def index_def slice_from_def bind_def host_portion_def
          repo_portion_def strings_Join_Split before_first_def after_first_def)
  next
    case False
    then show ?thesis
      by (simp add: strings_Contains_def host_portion_def repo_portion_def)
  qed
  show ?thesis
  proof (cases "?co \<in> set (repo_portion url)")
    case True
    have s1: "strings_Split (repo_portion url) ?co =
        before_first ?co (repo_portion url) # strings_Split (after_first ?co (repo_portion url)) ?co"
      using True strings_Split_unfold [of "repo_portion url" ?co] by simp
    obtain ps where s2: "strings_Split (after_first ?co (repo_portion url)) ?co =
        before_first ?co (after_first ?co (repo_portion url)) # ps"
      using strings_Split_unfold [of "after_first ?co (repo_portion url)" ?co] by blast
    show ?thesis
      using True unfolding urlToImageTag_def first
      by (simp add: bind_def strings_Contains_def index_def s1 s2)
  next
    case False
    then have "before_first ?co (repo_portion url) = repo_portion url"
      by (auto simp: before_first_def)
    then show ?thesis
      using False unfolding urlToImageTag_def first
      by (simp add: bind_def strings_Contains_def)
  qed
qed

lemma count_one_decomp:
  assumes "count_list s c = 1"
  obtains xs ys where "s = xs @ c # ys" "c \<notin> set xs" "c \<notin> set ys"
proof -
  have "c \<in> set s"
    using assms count_list_0_iff [of s c] by auto
  then obtain xs ys where d: "s = xs @ c # ys" "c \<notin> set xs"
    by (auto dest: split_list_first)
  then have "count_list ys c = 0"
    using assms by (simp add: count_list_0_iff)
  then have "c \<notin> set ys"
    by (simp add: count_list_0_iff)
  with d that show thesis by blast
qed

lemma takeWhile_until: "c \<notin> set xs \<Longrightarrow> takeWhile (\<lambda>x. x \<noteq> c) (xs @ c # ys) = xs"
  by (induction xs) auto

lemma dropWhile_until: "c \<notin> set xs \<Longrightarrow> dropWhile (\<lambda>x. x \<noteq> c) (xs @ c # ys) = c # ys"
  by (induction xs) auto

lemma single_separator:
  assumes "count_list s c = 1"
  shows "after_last c s = after_first c s \<and> before_last c s = before_first c s"
proof -
  obtain xs ys where d: "s = xs @ c # ys" "c \<notin> set xs" "c \<notin> set ys"
    using assms by (rule count_one_decomp)
  have r: "rev s = rev ys @ c # rev xs" "c \<notin> set (rev ys)"
    using d by simp_all
  have a: "before_first c s = xs" "after_first c s = ys"
    using d by (simp_all add: before_first_def after_first_def takeWhile_until dropWhile_until)
  have b: "before_first c (rev s) = rev ys" "after_first c (rev s) = rev xs"
    unfolding r(1) before_first_def after_first_def
    using r(2) by (simp_all add: takeWhile_until dropWhile_until)
  show ?thesis
    by (simp add: after_last_def before_last_def a b)
qed

lemma before_first_empty_iff: "before_first c s = [] \<longleftrightarrow> s = [] \<or> hd s = c"
  by (cases s) (simp_all add: before_first_def)

text \<open>
  Claim C2, as the code has it. The parser splits the repository portion at every colon
  and returns the first piece as the repository path and the second piece as the tag: the
  tag is the text between the first colon and the next one (or the end of the string),
  not the text after the last colon. When the portion holds exactly one colon the two
  readings agree: the tag is what follows the last colon and the repository path is what
  precedes it. Without a colon the tag is \<^verbatim>\<open>latest\<close> and the repository path is the
  whole portion.
\<close>

theorem C2_tag_is_second_piece:
  "urlToImageTag url =
     Ok (host_portion url,
         before_first CHR '':'' (repo_portion url),
         if CHR '':'' \<in> set (repo_portion url)
         then before_first CHR '':'' (after_first CHR '':'' (repo_portion url))
         else ''latest'')
   \<and> (count_list (repo_portion url) CHR '':'' = 1 \<longrightarrow>
        urlToImageTag url =
          Ok (host_portion url,
              before_last CHR '':'' (repo_portion url),
              after_last CHR '':'' (repo_portion url)))
   \<and> (CHR '':'' \<notin> set (repo_portion url) \<longrightarrow>
        urlToImageTag url = Ok (host_portion url, repo_portion url, ''latest''))"
proof (intro conjI impI)
  show "urlToImageTag url =
     Ok (host_portion url,
         before_first CHR '':'' (repo_portion url),
         if CHR '':'' \<in> set (repo_portion url)
         then before_first CHR '':'' (after_first CHR '':'' (repo_portion url))
         else ''latest'')"
    by (rule urlToImageTag_eq)
next
  let ?rp = "repo_portion url"
  assume one: "count_list ?rp CHR '':'' = 1"
  then have mem: "CHR '':'' \<in> set ?rp"
    using count_list_0_iff [of ?rp "CHR '':''"] by auto
  obtain xs ys where d: "?rp = xs @ CHR '':'' # ys" "CHR '':'' \<notin> set xs" "CHR '':'' \<notin> set ys"
    using one by (rule count_one_decomp)
  have "after_first CHR '':'' ?rp = ys"
    using d by (simp add: after_first_def dropWhile_until)
  then have "before_first CHR '':'' (after_first CHR '':'' ?rp) = after_first CHR '':'' ?rp"
    using d(3) by (auto simp: before_first_def)
  then show "urlToImageTag url =
      Ok (host_portion url, before_last CHR '':'' ?rp, after_last CHR '':'' ?rp)"
    using single_separator [OF one] mem by (simp add: urlToImageTag_eq)
next
  assume no: "CHR '':'' \<notin> set (repo_portion url)"
  then have "before_first CHR '':'' (repo_portion url) = repo_portion url"
    by (auto simp: before_first_def)
  with no show "urlToImageTag url = Ok (host_portion url, repo_portion url, ''latest'')"
    by (simp add: urlToImageTag_eq)
qed

theorem C2_tag_is_second_piece_witness:
  "count_list (repo_portion ''hello.example.com:5000/myimage/path:latest'') CHR '':'' = 1
   \<and> urlToImageTag ''hello.example.com:5000/myimage/path:latest'' =
       Ok (''hello.example.com:5000'', ''myimage/path'', ''latest'')
   \<and> CHR '':'' \<notin> set (repo_portion ''busybox'')
   \<and> urlToImageTag ''busybox'' = Ok (''index.docker.io'', ''busybox'', ''latest'')"
  using C2_tag_is_second_piece [of "''hello.example.com:5000/myimage/path:latest''"]
    C2_tag_is_second_piece [of "''busybox''"]
  by (simp add: repo_portion_def host_portion_def before_first_def after_first_def
      before_last_def after_last_def)

text \<open>
  Claim C2 as it is written fails on a repository portion with two colons: the tag
  returned for \<^verbatim>\<open>registry.example.com/app:v1:rc\<close> is \<^verbatim>\<open>v1\<close>, and what follows the last
  colon is \<^verbatim>\<open>rc\<close>.
\<close>

theorem C2_last_colon_counterexample:
  "CHR '':'' \<in> set (repo_portion ''registry.example.com/app:v1:rc'')
   \<and> urlToImageTag ''registry.example.com/app:v1:rc'' = Ok (''registry.example.com'', ''app'', ''v1'')
   \<and> after_last CHR '':'' (repo_portion ''registry.example.com/app:v1:rc'') = ''rc''
   \<and> before_last CHR '':'' (repo_portion ''registry.example.com/app:v1:rc'') = ''app:v1''
   \<and> urlToImageTag ''registry.example.com/app:v1:rc'' \<noteq>
       Ok (host_portion ''registry.example.com/app:v1:rc'',
           before_last CHR '':'' (repo_portion ''registry.example.com/app:v1:rc''),
           after_last CHR '':'' (repo_portion ''registry.example.com/app:v1:rc''))"
  by (simp add: urlToImageTag_eq repo_portion_def host_portion_def before_first_def
      after_first_def before_last_def after_last_def)

text \<open>
  Claim C3, as the code has it. The parser validates nothing and never fails; the
  repository path it returns is non-empty exactly when the repository portion of the
  input (what follows the first slash, or the whole input) is non-empty and does not
  begin with a colon.
\<close>

theorem C3_repository_path_nonempty_iff:
  "\<exists>registry img tag.
     urlToImageTag url = Ok (registry, img, tag)
     \<and> (img \<noteq> [] \<longleftrightarrow> repo_portion url \<noteq> [] \<and> hd (repo_portion url) \<noteq> CHR '':'')"
  by (simp add: urlToImageTag_eq before_first_empty_iff)

theorem C3_repository_path_nonempty_iff_witness:
  "urlToImageTag ''registry.example.com/hello-world:v1'' =
     Ok (''registry.example.com'', ''hello-world'', ''v1'')
   \<and> repo_portion ''registry.example.com/hello-world:v1'' \<noteq> []
   \<and> hd (repo_portion ''registry.example.com/hello-world:v1'') \<noteq> CHR '':''"
  using C3_repository_path_nonempty_iff [of "''registry.example.com/hello-world:v1''"]
  by (simp add: urlToImageTag_eq repo_portion_def host_portion_def before_first_def
      after_first_def)

text \<open>
  Claim C3 as it is written fails: the empty reference, a reference that ends at its
  first slash and a reference whose repository portion begins with a colon all give an
  empty repository path, with no error.
\<close>

theorem C3_empty_repository_counterexample:
  "urlToImageTag [] = Ok (''index.docker.io'', [], ''latest'')
   \<and> urlToImageTag ''registry.example.com/'' = Ok (''registry.example.com'', [], ''latest'')
   \<and> urlToImageTag ''registry.example.com/:v1'' = Ok (''registry.example.com'', [], ''v1'')"
  by (simp add: urlToImageTag_eq repo_portion_def host_portion_def before_first_def
      after_first_def)


section \<open>Properties of the credential resolver\<close>

lemma registryAuth_explicit:
  "explicit_present w \<Longrightarrow>
   registryAuth w host = Ok (base64_EncodeToString (Username w @ '':'' @ Password w))"
  by (simp add: registryAuth_def explicit_present_def)

lemma registryAuth_environment:
  "\<not> explicit_present w \<Longrightarrow> environment_present w \<Longrightarrow>
   registryAuth w host =
     Ok (base64_EncodeToString (Getenv w ''DOCKER_USER'' @ '':'' @ Getenv w ''DOCKER_PASS''))"
  by (auto simp add: registryAuth_def explicit_present_def environment_present_def)

lemma registryAuth_store:
  "\<not> explicit_present w \<Longrightarrow> \<not> environment_present w \<Longrightarrow>
   registryAuth w host = dockerConfigAuth w host"
  by (auto simp add: registryAuth_def explicit_present_def environment_present_def)

lemma dockerConfigAuth_credential:
  "store_credential w host = Some token \<Longrightarrow> dockerConfigAuth w host = Ok token"
  by (auto simp: store_credential_def dockerConfigAuth_def store_exists_def store_path_def
      lookup_def assert_map_def assert_string_def bind_def Let_def
      split: if_splits sum.splits option.splits json.splits)

lemma dockerConfigAuth_missing:
  "\<not> store_exists w \<Longrightarrow> dockerConfigAuth w host = Ok []"
  by (auto simp: dockerConfigAuth_def store_exists_def store_path_def Let_def)

lemma dockerConfigAuth_unreadable:
  "store_exists w \<Longrightarrow> ReadFile w (store_path w) = Inl e \<Longrightarrow> dockerConfigAuth w host = Err e"
  by (simp add: dockerConfigAuth_def store_exists_def store_path_def)

lemma dockerConfigAuth_unparsable:
  "store_exists w \<Longrightarrow> ReadFile w (store_path w) = Inr content \<Longrightarrow> Unmarshal_map w content = Inl e \<Longrightarrow>
   dockerConfigAuth w host = Err e"
  by (simp add: dockerConfigAuth_def store_exists_def store_path_def)

lemma dockerConfigAuth_parsed:
  "store_exists w \<Longrightarrow> ReadFile w (store_path w) = Inr content \<Longrightarrow> Unmarshal_map w content = Inr dc \<Longrightarrow>
   dockerConfigAuth w host =
     bind (assert_map (lookup dc ''auths'')) (\<lambda>auths.
     bind (assert_map (lookup auths host)) (\<lambda>auth.
     if lookup auth ''auth'' = JNull then Ok []
     else bind (assert_string (lookup auth ''auth'')) Ok))"
  by (simp add: dockerConfigAuth_def store_exists_def store_path_def)

lemma dockerConfigAuth_cong:
  "Getenv w' ''HOME'' = Getenv w ''HOME'' \<Longrightarrow> Stat w' = Stat w \<Longrightarrow> ReadFile w' = ReadFile w \<Longrightarrow>
   Unmarshal_map w' = Unmarshal_map w \<Longrightarrow> dockerConfigAuth w' host = dockerConfigAuth w host"
  by (simp add: dockerConfigAuth_def Let_def cong: option.case_cong sum.case_cong)

text \<open>
  The unchecked assertions: a store without an \<^verbatim>\<open>auths\<close> object, or whose \<^verbatim>\<open>auths\<close>
  has no object for the host, makes the resolver panic.
\<close>

lemma dockerConfigAuth_no_auths:
  "store_exists w \<Longrightarrow> ReadFile w (store_path w) = Inr content \<Longrightarrow> Unmarshal_map w content = Inr dc \<Longrightarrow>
   map_of dc ''auths'' = None \<Longrightarrow> dockerConfigAuth w host = Panic"
  by (simp add: dockerConfigAuth_parsed lookup_def assert_map_def bind_def)

lemma dockerConfigAuth_no_host:
  "store_exists w \<Longrightarrow> ReadFile w (store_path w) = Inr content \<Longrightarrow> Unmarshal_map w content = Inr dc \<Longrightarrow>
   map_of dc ''auths'' = Some (JObject auths) \<Longrightarrow> map_of auths host = None \<Longrightarrow>
   dockerConfigAuth w host = Panic"
  by (simp add: dockerConfigAuth_parsed lookup_def assert_map_def bind_def)

lemma dockerConfigAuth_no_token:
  "store_exists w \<Longrightarrow> ReadFile w (store_path w) = Inr content \<Longrightarrow> Unmarshal_map w content = Inr dc \<Longrightarrow>
   map_of dc ''auths'' = Some (JObject auths) \<Longrightarrow> map_of auths host = Some (JObject entry) \<Longrightarrow>
   map_of entry ''auth'' = None \<or> map_of entry ''auth'' = Some JNull \<Longrightarrow>
   dockerConfigAuth w host = Ok []"
  by (auto simp add: dockerConfigAuth_parsed lookup_def assert_map_def bind_def)

lemma store_world_fields:
  "Username store_world = []" "Password store_world = []"
  "Getenv store_world ''HOME'' = ''/home/dev''"
  "Getenv store_world ''DOCKER_USER'' = []" "Getenv store_world ''DOCKER_PASS'' = []"
  "Stat store_world ''/home/dev/.docker/config.json'' = None"
  "ReadFile store_world ''/home/dev/.docker/config.json'' = Inr example_config"
  "Unmarshal_map store_world example_config =
     Inr [(''auths'', JObject [(''other.example.com'', JObject [(''auth'', JString ''dXNlcjpwYXNz'')])])]"
  by (simp_all add: store_world_def example_world_def)

lemma example_world_fields:
  "Username example_world = []" "Password example_world = []"
  "Getenv example_world k = []"
  "Stat example_world p = Some ''no such file or directory''"
  "NewRequest_error example_world method url = None"
  "Do example_world = example_registry"
  "Unmarshal_Manifest example_world example_body = Inr example_manifest"
  "Marshal_Manifest example_world example_manifest = Inr example_body"
  by (simp_all add: example_world_def)

lemma example_auth: "registryAuth example_world host = Ok []"
  by (simp add: registryAuth_def dockerConfigAuth_def example_world_fields)

lemma store_world_present:
  "\<not> explicit_present store_world" "\<not> environment_present store_world"
  "store_path store_world = ''/home/dev/.docker/config.json''" "store_exists store_world"
  by (simp_all add: explicit_present_def environment_present_def store_exists_def store_path_def
      store_world_fields)

text \<open>
  Claim C4, evaluated on the code. With no explicit and no environment credentials and a
  store that parses as \<^verbatim>\<open>{"auths":{"other.example.com":{"auth":"dXNlcjpwYXNz"}}}\<close>,
  resolving \<^verbatim>\<open>registry.example.com\<close> panics in the type assertion of line 93, before the
  test of line 95 that was written to return the empty token. A store with no \<^verbatim>\<open>auths\<close>
  key (\<^verbatim>\<open>{"credsStore":"desktop"}\<close>) panics at line 91.
\<close>

theorem C4_missing_host_panics:
  "\<not> explicit_present store_world \<and> \<not> environment_present store_world
   \<and> store_exists store_world
   \<and> store_credential store_world ''registry.example.com'' = None
   \<and> registryAuth store_world ''registry.example.com'' = Panic
   \<and> registryAuth (store_world\<lparr>Unmarshal_map := (\<lambda>bd. Inr [(''credsStore'', JString ''desktop'')])\<rparr>)
        ''registry.example.com'' = Panic"
proof -
  let ?w = "store_world\<lparr>Unmarshal_map := (\<lambda>bd. Inr [(''credsStore'', JString ''desktop'')])\<rparr>"
  have a: "registryAuth store_world ''registry.example.com'' = Panic"
    using dockerConfigAuth_no_host [of store_world example_config _ _ "''registry.example.com''"]
    by (simp add: registryAuth_store store_world_present store_world_fields)
  have b: "store_credential store_world ''registry.example.com'' = None"
    by (simp add: store_credential_def store_world_present store_world_fields)
  have "\<not> explicit_present ?w" "\<not> environment_present ?w" "store_exists ?w"
    "store_path ?w = ''/home/dev/.docker/config.json''"
    "ReadFile ?w ''/home/dev/.docker/config.json'' = Inr example_config"
    using store_world_present
    by (simp_all add: explicit_present_def environment_present_def store_exists_def store_path_def
        store_world_fields)
  then have c: "registryAuth ?w ''registry.example.com'' = Panic"
    using dockerConfigAuth_no_auths [of ?w example_config "[(''credsStore'', JString ''desktop'')]"]
    by (simp add: registryAuth_store)
  show ?thesis
    using a b c store_world_present by simp
qed

text \<open>
  Claim C5. Precedence of the credential sources, for every world and host. When the
  explicit pair is present the token is base64 of \<^verbatim>\<open>Username:Password\<close>, whatever the
  environment and the store hold; otherwise, when the environment pair is present, the
  token is base64 of \<^verbatim>\<open>DOCKER_USER:DOCKER_PASS\<close>, whatever the store holds; otherwise,
  when the store holds a credential for the host, the token is that string as it stands;
  otherwise, when the store file does not exist or its entry for the host has no
  \<^verbatim>\<open>auth\<close>, the token is empty (absent). A store that exists without an object for the
  host is the case of claim C4.
\<close>

theorem C5_precedence:
  "(explicit_present w \<longrightarrow>
      registryAuth w host = Ok (base64_EncodeToString (Username w @ '':'' @ Password w))
      \<and> registryAuth (w\<lparr>Getenv := env, Stat := st, ReadFile := rf, Unmarshal_map := um\<rparr>) host
          = registryAuth w host)
   \<and> (\<not> explicit_present w \<and> environment_present w \<longrightarrow>
      registryAuth w host =
        Ok (base64_EncodeToString (Getenv w ''DOCKER_USER'' @ '':'' @ Getenv w ''DOCKER_PASS''))
      \<and> registryAuth (w\<lparr>Stat := st, ReadFile := rf, Unmarshal_map := um\<rparr>) host
          = registryAuth w host)
   \<and> (\<not> explicit_present w \<and> \<not> environment_present w \<and> store_credential w host = Some token \<longrightarrow>
      registryAuth w host = Ok token)
   \<and> (\<not> explicit_present w \<and> \<not> environment_present w \<and> \<not> store_exists w \<longrightarrow>
      registryAuth w host = Ok [])
   \<and> (\<not> explicit_present w \<and> \<not> environment_present w \<and> store_exists w
       \<and> ReadFile w (store_path w) = Inr content \<and> Unmarshal_map w content = Inr dc
       \<and> map_of dc ''auths'' = Some (JObject auths) \<and> map_of auths host = Some (JObject entry)
       \<and> (map_of entry ''auth'' = None \<or> map_of entry ''auth'' = Some JNull) \<longrightarrow>
      registryAuth w host = Ok [])"
proof (intro conjI impI)
  assume "explicit_present w"
  then show "registryAuth w host = Ok (base64_EncodeToString (Username w @ '':'' @ Password w))"
    by (rule registryAuth_explicit)
next
  assume "explicit_present w"
  then show "registryAuth (w\<lparr>Getenv := env, Stat := st, ReadFile := rf, Unmarshal_map := um\<rparr>) host
      = registryAuth w host"
    by (simp add: registryAuth_def explicit_present_def)
next
  assume "\<not> explicit_present w \<and> environment_present w"
  then show "registryAuth w host =
      Ok (base64_EncodeToString (Getenv w ''DOCKER_USER'' @ '':'' @ Getenv w ''DOCKER_PASS''))"
    by (simp add: registryAuth_environment)
next
  assume "\<not> explicit_present w \<and> environment_present w"
  then show "registryAuth (w\<lparr>Stat := st, ReadFile := rf, Unmarshal_map := um\<rparr>) host
      = registryAuth w host"
    by (auto simp add: registryAuth_def explicit_present_def environment_present_def)
next
  assume "\<not> explicit_present w \<and> \<not> environment_present w \<and> store_credential w host = Some token"
  then show "registryAuth w host = Ok token"
    by (simp add: registryAuth_store dockerConfigAuth_credential)
next
  assume "\<not> explicit_present w \<and> \<not> environment_present w \<and> \<not> store_exists w"
  then show "registryAuth w host = Ok []"
    by (simp add: registryAuth_store dockerConfigAuth_missing)
next
  assume a: "\<not> explicit_present w \<and> \<not> environment_present w \<and> store_exists w
       \<and> ReadFile w (store_path w) = Inr content \<and> Unmarshal_map w content = Inr dc
       \<and> map_of dc ''auths'' = Some (JObject auths) \<and> map_of auths host = Some (JObject entry)
       \<and> (map_of entry ''auth'' = None \<or> map_of entry ''auth'' = Some JNull)"
  then have "dockerConfigAuth w host = Ok []"
    using dockerConfigAuth_no_token [of w content dc auths host entry] by blast
  with a show "registryAuth w host = Ok []"
    by (simp add: registryAuth_store)
qed

lemma credentials_world_fields:
  "Username credentials_world = ''user''" "Password credentials_world = ''secret''"
  "Getenv credentials_world ''HOME'' = ''/home/dev''"
  "Getenv credentials_world ''DOCKER_USER'' = ''envuser''"
  "Getenv credentials_world ''DOCKER_PASS'' = ''envpass''"
  "Stat credentials_world = Stat store_world"
  "ReadFile credentials_world = ReadFile store_world"
  "Unmarshal_map credentials_world = Unmarshal_map store_world"
  by (simp_all add: credentials_world_def)

lemma base64_examples:
  "base64_EncodeToString ''user:secret'' = ''dXNlcjpzZWNyZXQ=''"
  "base64_EncodeToString ''envuser:envpass'' = ''ZW52dXNlcjplbnZwYXNz''"
  "base64_EncodeToString ''user:pass'' = ''dXNlcjpwYXNz''"
  by (simp_all add: encode6_def encodeStd_def)

lemma store_world_credential:
  "store_credential store_world ''other.example.com'' = Some ''dXNlcjpwYXNz''"
  by (simp add: store_credential_def store_world_present store_world_fields)

theorem C5_precedence_witness:
  "explicit_present credentials_world
   \<and> registryAuth credentials_world ''other.example.com'' = Ok ''dXNlcjpzZWNyZXQ=''
   \<and> \<not> explicit_present (credentials_world\<lparr>Username := []\<rparr>)
   \<and> environment_present (credentials_world\<lparr>Username := []\<rparr>)
   \<and> registryAuth (credentials_world\<lparr>Username := []\<rparr>) ''other.example.com'' = Ok ''ZW52dXNlcjplbnZwYXNz''
   \<and> \<not> explicit_present store_world \<and> \<not> environment_present store_world
   \<and> store_credential store_world ''other.example.com'' = Some ''dXNlcjpwYXNz''
   \<and> registryAuth store_world ''other.example.com'' = Ok ''dXNlcjpwYXNz''
   \<and> \<not> explicit_present example_world \<and> \<not> environment_present example_world
   \<and> \<not> store_exists example_world
   \<and> registryAuth example_world ''other.example.com'' = Ok []"
proof -
  let ?env = "credentials_world\<lparr>Username := []\<rparr>"
  have p1: "explicit_present credentials_world"
    by (simp add: explicit_present_def credentials_world_fields)
  have p2: "\<not> explicit_present ?env \<and> environment_present ?env"
    by (simp add: explicit_present_def environment_present_def credentials_world_fields)
  have p3: "\<not> explicit_present store_world \<and> \<not> environment_present store_world
      \<and> store_credential store_world ''other.example.com'' = Some ''dXNlcjpwYXNz''"
    by (simp add: store_world_present store_world_credential)
  have p4: "\<not> explicit_present example_world \<and> \<not> environment_present example_world
      \<and> \<not> store_exists example_world"
    by (simp add: explicit_present_def environment_present_def store_exists_def
        example_world_fields)
  have "registryAuth credentials_world ''other.example.com'' = Ok ''dXNlcjpzZWNyZXQ=''"
    using C5_precedence [of credentials_world "''other.example.com''"] p1
    by (simp add: credentials_world_fields encode6_def encodeStd_def)
  moreover have "registryAuth ?env ''other.example.com'' = Ok ''ZW52dXNlcjplbnZwYXNz''"
    using C5_precedence [of ?env "''other.example.com''"] p2
    by (simp add: credentials_world_fields encode6_def encodeStd_def)
  moreover have "registryAuth store_world ''other.example.com'' = Ok ''dXNlcjpwYXNz''"
    using C5_precedence [of store_world "''other.example.com''" _ _ _ _ "''dXNlcjpwYXNz''"] p3
    by simp
  moreover have "registryAuth example_world ''other.example.com'' = Ok []"
    using C5_precedence [of example_world "''other.example.com''"] p4 by simp
  ultimately show ?thesis
    using p1 p2 p3 p4 by simp
qed

text \<open>
  Claim C6, as the code has it. When resolution reaches the credential store (neither
  the explicit pair nor the environment pair is present): if \<^verbatim>\<open>os.Stat\<close> on the store
  file succeeds and reading the file fails, or its contents do not parse, the resolver
  returns that error; if \<^verbatim>\<open>os.Stat\<close> fails, whatever the reason, it returns the empty
  token with no error, both when the file is missing and when it is there and cannot be
  reached.
\<close>

theorem C6_store_errors:
  "(\<not> explicit_present w \<and> \<not> environment_present w \<and> store_exists w
      \<and> ReadFile w (store_path w) = Inl e \<longrightarrow> registryAuth w host = Err e)
   \<and> (\<not> explicit_present w \<and> \<not> environment_present w \<and> store_exists w
      \<and> ReadFile w (store_path w) = Inr content \<and> Unmarshal_map w content = Inl e' \<longrightarrow>
        registryAuth w host = Err e')
   \<and> (\<not> explicit_present w \<and> \<not> environment_present w \<and> \<not> store_exists w \<longrightarrow>
        registryAuth w host = Ok [])
   \<and> (\<not> explicit_present w \<and> \<not> environment_present w \<and> store_missing w \<longrightarrow>
        registryAuth w host = Ok [])
   \<and> (\<not> explicit_present w \<and> \<not> environment_present w \<and> store_unreachable w \<longrightarrow>
        registryAuth w host = Ok [])"
proof -
  have "store_missing w \<Longrightarrow> \<not> store_exists w" "store_unreachable w \<Longrightarrow> \<not> store_exists w"
    by (auto simp: store_missing_def store_unreachable_def store_exists_def split: option.splits)
  then show ?thesis
    by (auto simp: registryAuth_store dockerConfigAuth_unreadable dockerConfigAuth_unparsable
        dockerConfigAuth_missing)
qed

lemma broken_store_worlds:
  "\<not> explicit_present unreadable_world" "\<not> environment_present unreadable_world"
  "store_exists unreadable_world"
  "ReadFile unreadable_world (store_path unreadable_world) = Inl ''permission denied''"
  "\<not> explicit_present unparsable_world" "\<not> environment_present unparsable_world"
  "store_exists unparsable_world"
  "ReadFile unparsable_world (store_path unparsable_world) = Inr ''{\"auths\":''"
  "Unmarshal_map unparsable_world ''{\"auths\":'' = Inl ''unexpected end of JSON input''"
  using store_world_present
  by (simp_all add: unreadable_world_def unparsable_world_def explicit_present_def
      environment_present_def store_exists_def store_path_def store_world_fields)

lemma unreachable_world_facts:
  "\<not> explicit_present unreachable_world" "\<not> environment_present unreachable_world"
  "store_path unreachable_world = ''/home/dev/.docker/config.json''"
  "Stat unreachable_world ''/home/dev/.docker/config.json'' = Some ''permission denied''"
  "ReadFile unreachable_world ''/home/dev/.docker/config.json'' = Inl ''permission denied''"
  "\<not> os_IsNotExist ''permission denied''"
  "store_unreachable unreachable_world" "\<not> store_missing unreachable_world"
  using store_world_present
  by (simp_all add: unreachable_world_def explicit_present_def environment_present_def
      store_path_def store_unreachable_def store_missing_def os_IsNotExist_def store_world_fields)

text \<open>
  Claim C6 as it is written fails: a store that is there and cannot be read, in a
  directory that may not be searched, makes \<^verbatim>\<open>os.Stat\<close> fail with
  \<^verbatim>\<open>permission denied\<close>, and the resolver returns the empty token with no error.
\<close>

theorem C6_unreachable_store_counterexample:
  "\<not> explicit_present unreachable_world \<and> \<not> environment_present unreachable_world
   \<and> Stat unreachable_world (store_path unreachable_world) = Some ''permission denied''
   \<and> \<not> os_IsNotExist ''permission denied''
   \<and> \<not> store_missing unreachable_world
   \<and> ReadFile unreachable_world (store_path unreachable_world) = Inl ''permission denied''
   \<and> registryAuth unreachable_world ''other.example.com'' = Ok []
   \<and> registryAuth unreachable_world ''other.example.com'' \<noteq> Err ''permission denied''"
proof -
  have "\<not> store_exists unreachable_world"
    by (simp add: store_exists_def unreachable_world_facts)
  then have "registryAuth unreachable_world ''other.example.com'' = Ok []"
    by (simp add: registryAuth_store dockerConfigAuth_missing unreachable_world_facts)
  then show ?thesis
    by (simp add: unreachable_world_facts)
qed

theorem C6_store_errors_witness:
  "\<not> explicit_present unreadable_world \<and> \<not> environment_present unreadable_world
   \<and> store_exists unreadable_world
   \<and> ReadFile unreadable_world (store_path unreadable_world) = Inl ''permission denied''
   \<and> registryAuth unreadable_world ''registry.example.com'' = Err ''permission denied''
   \<and> \<not> explicit_present unparsable_world \<and> \<not> environment_present unparsable_world
   \<and> store_exists unparsable_world
   \<and> ReadFile unparsable_world (store_path unparsable_world) = Inr ''{\"auths\":''
   \<and> Unmarshal_map unparsable_world ''{\"auths\":'' = Inl ''unexpected end of JSON input''
   \<and> registryAuth unparsable_world ''registry.example.com'' = Err ''unexpected end of JSON input''
   \<and> \<not> explicit_present example_world \<and> \<not> environment_present example_world
   \<and> \<not> store_exists example_world
   \<and> registryAuth example_world ''registry.example.com'' = Ok []
   \<and> store_missing example_world
   \<and> store_unreachable unreachable_world
   \<and> registryAuth unreachable_world ''registry.example.com'' = Ok []"
proof -
  have p: "\<not> explicit_present example_world \<and> \<not> environment_present example_world
      \<and> \<not> store_exists example_world"
    by (simp add: explicit_present_def environment_present_def store_exists_def
        example_world_fields)
  have "registryAuth unreadable_world ''registry.example.com'' = Err ''permission denied''"
    using C6_store_errors [of unreadable_world "''permission denied''" "''registry.example.com''"]
      broken_store_worlds by simp
  moreover have "registryAuth unparsable_world ''registry.example.com''
      = Err ''unexpected end of JSON input''"
    using C6_store_errors [of unparsable_world _ "''registry.example.com''" "''{\"auths\":''"
        "''unexpected end of JSON input''"]
      broken_store_worlds by simp
  moreover have "registryAuth example_world ''registry.example.com'' = Ok []"
    using C6_store_errors [of example_world _ "''registry.example.com''"] p by simp
  moreover have "store_missing example_world"
    by (simp add: store_missing_def os_IsNotExist_def example_world_fields)
  moreover have "registryAuth unreachable_world ''registry.example.com'' = Ok []"
    using C6_store_errors [of unreachable_world _ "''registry.example.com''"]
      unreachable_world_facts by simp
  ultimately show ?thesis
    using p broken_store_worlds unreachable_world_facts by simp
qed

text \<open>
  Claim C10. A pair with an empty half is skipped: with an empty \<^verbatim>\<open>Username\<close> or an
  empty \<^verbatim>\<open>Password\<close> the resolver answers as it does with both empty, which is the
  environment token when the environment pair is present; and when, besides, one of
  \<^verbatim>\<open>DOCKER_USER\<close> and \<^verbatim>\<open>DOCKER_PASS\<close> is empty, it answers as it does with both
  unset, which is the answer of the credential store. Each source is used when both of
  its halves are non-empty (and no source before it is present).
\<close>

theorem C10_half_set_pair_is_skipped:
  "((Username w = [] \<or> Password w = []) \<longrightarrow>
      registryAuth w host = registryAuth (w\<lparr>Username := [], Password := []\<rparr>) host)
   \<and> ((Username w = [] \<or> Password w = []) \<and> environment_present w \<longrightarrow>
      registryAuth w host =
        Ok (base64_EncodeToString (Getenv w ''DOCKER_USER'' @ '':'' @ Getenv w ''DOCKER_PASS'')))
   \<and> ((Username w = [] \<or> Password w = [])
       \<and> (Getenv w ''DOCKER_USER'' = [] \<or> Getenv w ''DOCKER_PASS'' = []) \<longrightarrow>
      registryAuth w host =
        registryAuth (w\<lparr>Getenv := (Getenv w)(''DOCKER_USER'' := [], ''DOCKER_PASS'' := [])\<rparr>) host
      \<and> registryAuth w host = dockerConfigAuth w host)
   \<and> (Username w \<noteq> [] \<and> Password w \<noteq> [] \<longrightarrow>
      registryAuth w host = Ok (base64_EncodeToString (Username w @ '':'' @ Password w)))"
proof (intro conjI impI)
  assume "Username w = [] \<or> Password w = []"
  then show "registryAuth w host = registryAuth (w\<lparr>Username := [], Password := []\<rparr>) host"
    using dockerConfigAuth_cong [of "w\<lparr>Username := [], Password := []\<rparr>" w host]
    by (auto simp: registryAuth_def)
next
  assume "(Username w = [] \<or> Password w = []) \<and> environment_present w"
  then have "\<not> explicit_present w" "environment_present w"
    by (auto simp: explicit_present_def)
  then show "registryAuth w host =
      Ok (base64_EncodeToString (Getenv w ''DOCKER_USER'' @ '':'' @ Getenv w ''DOCKER_PASS''))"
    by (rule registryAuth_environment)
next
  assume a: "(Username w = [] \<or> Password w = [])
      \<and> (Getenv w ''DOCKER_USER'' = [] \<or> Getenv w ''DOCKER_PASS'' = [])"
  then have n: "\<not> explicit_present w" "\<not> environment_present w"
    by (auto simp: explicit_present_def environment_present_def)
  then show s: "registryAuth w host = dockerConfigAuth w host"
    by (rule registryAuth_store)
  let ?w' = "w\<lparr>Getenv := (Getenv w)(''DOCKER_USER'' := [], ''DOCKER_PASS'' := [])\<rparr>"
  have "\<not> explicit_present ?w'" "\<not> environment_present ?w'"
    using n by (simp_all add: explicit_present_def environment_present_def)
  then have "registryAuth ?w' host = dockerConfigAuth ?w' host"
    by (rule registryAuth_store)
  also have "\<dots> = dockerConfigAuth w host"
    by (rule dockerConfigAuth_cong) simp_all
  finally show "registryAuth w host = registryAuth ?w' host"
    using s by simp
next
  assume "Username w \<noteq> [] \<and> Password w \<noteq> []"
  then show "registryAuth w host = Ok (base64_EncodeToString (Username w @ '':'' @ Password w))"
    by (simp add: registryAuth_explicit explicit_present_def)
qed

theorem C10_half_set_pair_is_skipped_witness:
  "Username (credentials_world\<lparr>Password := []\<rparr>) = ''user''
   \<and> Password (credentials_world\<lparr>Password := []\<rparr>) = []
   \<and> environment_present (credentials_world\<lparr>Password := []\<rparr>)
   \<and> registryAuth (credentials_world\<lparr>Password := []\<rparr>) ''other.example.com''
       = Ok ''ZW52dXNlcjplbnZwYXNz''
   \<and> Username (store_world\<lparr>Username := ''user''\<rparr>) = ''user''
   \<and> Password (store_world\<lparr>Username := ''user''\<rparr>) = []
   \<and> Getenv (store_world\<lparr>Username := ''user''\<rparr>) ''DOCKER_USER'' = []
   \<and> registryAuth (store_world\<lparr>Username := ''user''\<rparr>) ''other.example.com'' = Ok ''dXNlcjpwYXNz''
   \<and> Username credentials_world \<noteq> [] \<and> Password credentials_world \<noteq> []
   \<and> registryAuth credentials_world ''other.example.com'' = Ok ''dXNlcjpzZWNyZXQ=''"
proof -
  let ?half = "credentials_world\<lparr>Password := []\<rparr>"
  let ?user = "store_world\<lparr>Username := ''user''\<rparr>"
  have p1: "Username ?half = ''user''" "Password ?half = []" "environment_present ?half"
    by (simp_all add: environment_present_def credentials_world_fields)
  have p2: "Username ?user = ''user''" "Password ?user = []" "Getenv ?user ''DOCKER_USER'' = []"
    by (simp_all add: store_world_fields)
  have p3: "Username credentials_world \<noteq> []" "Password credentials_world \<noteq> []"
    by (simp_all add: credentials_world_fields)
  have "dockerConfigAuth ?user ''other.example.com'' = dockerConfigAuth store_world ''other.example.com''"
    by (rule dockerConfigAuth_cong) simp_all
  then have s: "dockerConfigAuth ?user ''other.example.com'' = Ok ''dXNlcjpwYXNz''"
    by (simp add: dockerConfigAuth_credential store_world_credential)
  have "registryAuth ?half ''other.example.com'' =
      Ok (base64_EncodeToString (Getenv ?half ''DOCKER_USER'' @ '':'' @ Getenv ?half ''DOCKER_PASS''))"
    using C10_half_set_pair_is_skipped [of ?half "''other.example.com''"] p1 by blast
  then have "registryAuth ?half ''other.example.com'' = Ok ''ZW52dXNlcjplbnZwYXNz''"
    by (simp add: credentials_world_fields encode6_def encodeStd_def)
  moreover have "registryAuth ?user ''other.example.com'' = dockerConfigAuth ?user ''other.example.com''"
    using C10_half_set_pair_is_skipped [of ?user "''other.example.com''"] p2 by blast
  then have "registryAuth ?user ''other.example.com'' = Ok ''dXNlcjpwYXNz''"
    using s by simp
  moreover have "registryAuth credentials_world ''other.example.com'' =
      Ok (base64_EncodeToString (Username credentials_world @ '':'' @ Password credentials_world))"
    using C10_half_set_pair_is_skipped [of credentials_world "''other.example.com''"] p3 by blast
  then have "registryAuth credentials_world ''other.example.com'' = Ok ''dXNlcjpzZWNyZXQ=''"
    by (simp add: credentials_world_fields encode6_def encodeStd_def)
  ultimately show ?thesis
    using p1 p2 p3 by simp
qed


section \<open>Properties of the registry client\<close>

lemma getManifest_request_Panic_iff:
  "getManifest_request w url = Panic \<longleftrightarrow> registryAuth w (host_portion url) = Panic"
  by (auto simp: getManifest_request_def urlToImageTag_eq bind_def http_NewRequest_def Let_def
      split: outcome.splits option.splits)

lemma uploadManifest_request_Panic_iff:
  "uploadManifest_request w url m = Panic \<longleftrightarrow> registryAuth w (host_portion url) = Panic"
  by (auto simp: uploadManifest_request_def urlToImageTag_eq bind_def http_NewRequest_def Let_def
      split: outcome.splits option.splits sum.splits)

lemma getManifest_request_Method:
  "getManifest_request w url = Ok req \<Longrightarrow> Method req = ''GET''"
  by (auto simp: getManifest_request_def urlToImageTag_eq bind_def http_NewRequest_def Let_def
      Header_Add_def split: outcome.splits option.splits if_splits)

lemma uploadManifest_request_sends:
  "uploadManifest_request w url m = Ok req \<Longrightarrow>
   Method req = ''PUT'' \<and> (\<exists>jd. Marshal_Manifest w m = Inr jd \<and> Body req = Some jd)
   \<and> map_of (Header req) ''Content-Type'' = Some (MediaType m)"
  by (auto simp: uploadManifest_request_def urlToImageTag_eq bind_def http_NewRequest_def Let_def
      Header_Add_def split: outcome.splits option.splits sum.splits if_splits)

lemma getManifest_Ok_iff:
  "getManifest w url = Ok m \<longleftrightarrow>
     (\<exists>req resp bd. getManifest_request w url = Ok req \<and> Do w req = Inr resp
        \<and> ReadAll_Body resp = Inr bd \<and> StatusCode resp = 200
        \<and> Unmarshal_Manifest w bd = Inr m)"
  by (auto simp: getManifest_def bind_def split: outcome.splits sum.splits if_splits)

lemma getManifest_Panic_iff:
  "getManifest w url = Panic \<longleftrightarrow> registryAuth w (host_portion url) = Panic"
  unfolding getManifest_request_Panic_iff [symmetric]
  by (auto simp: getManifest_def bind_def split: outcome.splits sum.splits if_splits)

lemma uploadManifest_Ok_iff:
  "uploadManifest w url m = Ok () \<longleftrightarrow>
     (\<exists>req resp bd. uploadManifest_request w url m = Ok req \<and> Do w req = Inr resp
        \<and> ReadAll_Body resp = Inr bd \<and> StatusCode resp = 201)"
  by (auto simp: uploadManifest_def bind_def split: outcome.splits sum.splits if_splits)

lemma uploadManifest_Panic_iff:
  "uploadManifest w url m = Panic \<longleftrightarrow> registryAuth w (host_portion url) = Panic"
  unfolding uploadManifest_request_Panic_iff [symmetric, of w url m]
  by (auto simp: uploadManifest_def bind_def split: outcome.splits sum.splits if_splits)

lemma getManifest_errors:
  "getManifest_request w url = Err e \<Longrightarrow> getManifest w url = Err e"
  "getManifest_request w url = Ok req \<Longrightarrow> Do w req = Inl e \<Longrightarrow> getManifest w url = Err e"
  "getManifest_request w url = Ok req \<Longrightarrow> Do w req = Inr resp \<Longrightarrow> ReadAll_Body resp = Inl e
     \<Longrightarrow> getManifest w url = Err e"
  "getManifest_request w url = Ok req \<Longrightarrow> Do w req = Inr resp \<Longrightarrow> ReadAll_Body resp = Inr bd
     \<Longrightarrow> StatusCode resp \<noteq> 200 \<Longrightarrow> getManifest w url = Err (Status resp)"
  "getManifest_request w url = Ok req \<Longrightarrow> Do w req = Inr resp \<Longrightarrow> ReadAll_Body resp = Inr bd
     \<Longrightarrow> StatusCode resp = 200 \<Longrightarrow> Unmarshal_Manifest w bd = Inl e \<Longrightarrow> getManifest w url = Err e"
  by (simp_all add: getManifest_def bind_def)

lemma uploadManifest_errors:
  "uploadManifest_request w url m = Err e \<Longrightarrow> uploadManifest w url m = Err e"
  "uploadManifest_request w url m = Ok req \<Longrightarrow> Do w req = Inl e \<Longrightarrow> uploadManifest w url m = Err e"
  "uploadManifest_request w url m = Ok req \<Longrightarrow> Do w req = Inr resp \<Longrightarrow> ReadAll_Body resp = Inl e
     \<Longrightarrow> uploadManifest w url m = Err e"
  "uploadManifest_request w url m = Ok req \<Longrightarrow> Do w req = Inr resp \<Longrightarrow> ReadAll_Body resp = Inr bd
     \<Longrightarrow> StatusCode resp \<noteq> 201 \<Longrightarrow> uploadManifest w url m = Err (Status resp)"
  by (simp_all add: uploadManifest_def bind_def)

text \<open>
  Claim C7. \<^verbatim>\<open>getManifest\<close> returns a manifest exactly when it sent its GET request, the
  client delivered a response whose body could be read, the status code is 200 and the
  body decodes to that manifest. With any other status it returns the status text as the
  error; a failure of the transport, of reading the body, of decoding, or of preparing
  the request (credential resolution, request construction) is returned as the error.
  \<^verbatim>\<open>uploadManifest\<close> returns nil exactly when it sent its PUT request, a response came
  back whole and its status code is 201; any other status gives the status text as the
  error and the other failures are returned as they are. The one outcome that is neither
  is the panic of the credential resolver (claim C4).
\<close>

theorem C7_success_exactly_on_status:
  "(getManifest w url = Ok m \<longleftrightarrow>
      (\<exists>req resp bd. getManifest_request w url = Ok req \<and> Method req = ''GET''
         \<and> Do w req = Inr resp \<and> ReadAll_Body resp = Inr bd \<and> StatusCode resp = 200
         \<and> Unmarshal_Manifest w bd = Inr m))
   \<and> (getManifest_request w url = Ok req \<and> Do w req = Inr resp \<and> ReadAll_Body resp = Inr bd
        \<and> StatusCode resp \<noteq> 200 \<longrightarrow> getManifest w url = Err (Status resp))
   \<and> (getManifest_request w url = Ok req \<and> Do w req = Inr resp \<and> ReadAll_Body resp = Inr bd
        \<and> StatusCode resp = 200 \<and> Unmarshal_Manifest w bd = Inl e \<longrightarrow> getManifest w url = Err e)
   \<and> (getManifest_request w url = Ok req
        \<and> (Do w req = Inl e \<or> Do w req = Inr resp \<and> ReadAll_Body resp = Inl e) \<longrightarrow>
          getManifest w url = Err e)
   \<and> (getManifest_request w url = Err e \<longrightarrow> getManifest w url = Err e)
   \<and> ((\<forall>m'. getManifest w url \<noteq> Ok m') \<and> registryAuth w (host_portion url) \<noteq> Panic \<longrightarrow>
        (\<exists>e'. getManifest w url = Err e'))
   \<and> (uploadManifest w target mf = Ok () \<longleftrightarrow>
        (\<exists>req resp bd. uploadManifest_request w target mf = Ok req \<and> Method req = ''PUT''
           \<and> Do w req = Inr resp \<and> ReadAll_Body resp = Inr bd \<and> StatusCode resp = 201))
   \<and> (uploadManifest_request w target mf = Ok preq \<and> Do w preq = Inr presp
        \<and> ReadAll_Body presp = Inr pbd \<and> StatusCode presp \<noteq> 201 \<longrightarrow>
          uploadManifest w target mf = Err (Status presp))
   \<and> (uploadManifest_request w target mf = Ok preq
        \<and> (Do w preq = Inl e \<or> Do w preq = Inr presp \<and> ReadAll_Body presp = Inl e) \<longrightarrow>
          uploadManifest w target mf = Err e)
   \<and> (uploadManifest_request w target mf = Err e \<longrightarrow> uploadManifest w target mf = Err e)
   \<and> (uploadManifest w target mf \<noteq> Ok () \<and> registryAuth w (host_portion target) \<noteq> Panic \<longrightarrow>
        (\<exists>e'. uploadManifest w target mf = Err e'))"
proof (intro conjI)
  show "getManifest w url = Ok m \<longleftrightarrow>
      (\<exists>req resp bd. getManifest_request w url = Ok req \<and> Method req = ''GET''
         \<and> Do w req = Inr resp \<and> ReadAll_Body resp = Inr bd \<and> StatusCode resp = 200
         \<and> Unmarshal_Manifest w bd = Inr m)"
    using getManifest_Ok_iff [of w url m] getManifest_request_Method [of w url] by blast
  show "getManifest_request w url = Ok req \<and> Do w req = Inr resp \<and> ReadAll_Body resp = Inr bd
        \<and> StatusCode resp \<noteq> 200 \<longrightarrow> getManifest w url = Err (Status resp)"
    using getManifest_errors(4) [of w url req resp bd] by blast
  show "getManifest_request w url = Ok req \<and> Do w req = Inr resp \<and> ReadAll_Body resp = Inr bd
        \<and> StatusCode resp = 200 \<and> Unmarshal_Manifest w bd = Inl e \<longrightarrow> getManifest w url = Err e"
    using getManifest_errors(5) [of w url req resp bd e] by blast
  show "getManifest_request w url = Ok req
        \<and> (Do w req = Inl e \<or> Do w req = Inr resp \<and> ReadAll_Body resp = Inl e) \<longrightarrow>
          getManifest w url = Err e"
    using getManifest_errors(2) [of w url req e] getManifest_errors(3) [of w url req resp e]
    by blast
  show "getManifest_request w url = Err e \<longrightarrow> getManifest w url = Err e"
    using getManifest_errors(1) [of w url e] by blast
  show "(\<forall>m'. getManifest w url \<noteq> Ok m') \<and> registryAuth w (host_portion url) \<noteq> Panic \<longrightarrow>
        (\<exists>e'. getManifest w url = Err e')"
    using getManifest_Panic_iff [of w url] by (cases "getManifest w url") auto
  show "uploadManifest w target mf = Ok () \<longleftrightarrow>
        (\<exists>req resp bd. uploadManifest_request w target mf = Ok req \<and> Method req = ''PUT''
           \<and> Do w req = Inr resp \<and> ReadAll_Body resp = Inr bd \<and> StatusCode resp = 201)"
    using uploadManifest_Ok_iff [of w target mf] uploadManifest_request_sends [of w target mf]
    by blast
  show "uploadManifest_request w target mf = Ok preq \<and> Do w preq = Inr presp
        \<and> ReadAll_Body presp = Inr pbd \<and> StatusCode presp \<noteq> 201 \<longrightarrow>
          uploadManifest w target mf = Err (Status presp)"
    using uploadManifest_errors(4) [of w target mf preq presp pbd] by blast
  show "uploadManifest_request w target mf = Ok preq
        \<and> (Do w preq = Inl e \<or> Do w preq = Inr presp \<and> ReadAll_Body presp = Inl e) \<longrightarrow>
          uploadManifest w target mf = Err e"
    using uploadManifest_errors(2) [of w target mf preq e]
      uploadManifest_errors(3) [of w target mf preq presp e]
    by blast
  show "uploadManifest_request w target mf = Err e \<longrightarrow> uploadManifest w target mf = Err e"
    using uploadManifest_errors(1) [of w target mf e] by blast
  show "uploadManifest w target mf \<noteq> Ok () \<and> registryAuth w (host_portion target) \<noteq> Panic \<longrightarrow>
        (\<exists>e'. uploadManifest w target mf = Err e')"
    using uploadManifest_Panic_iff [of w target mf] by (cases "uploadManifest w target mf") auto
qed

lemma example_urls:
  "urlToImageTag ''registry.example.com/hello-world:v1'' =
     Ok (''registry.example.com'', ''hello-world'', ''v1'')"
  "urlToImageTag ''registry.example.com/hello-world:v9'' =
     Ok (''registry.example.com'', ''hello-world'', ''v9'')"
  "urlToImageTag ''registry.example.com/hello-world:main'' =
     Ok (''registry.example.com'', ''hello-world'', ''main'')"
  "urlToImageTag ''registry.example.com/hello-world:latest'' =
     Ok (''registry.example.com'', ''hello-world'', ''latest'')"
  "urlToImageTag ''registry.example.com/hello-world:broken'' =
     Ok (''registry.example.com'', ''hello-world'', ''broken'')"
  by (simp_all add: urlToImageTag_eq repo_portion_def host_portion_def before_first_def
      after_first_def)

lemma example_get_requests:
  "getManifest_request example_world ''registry.example.com/hello-world:v1'' =
     Ok \<lparr>Method = ''GET'', URL = ''https://registry.example.com/v2/hello-world/manifests/v1'',
         Header = [(''Accept'', ''application/vnd.docker.distribution.manifest.v2+json'')],
         Body = None\<rparr>"
  "getManifest_request example_world ''registry.example.com/hello-world:v9'' =
     Ok \<lparr>Method = ''GET'', URL = ''https://registry.example.com/v2/hello-world/manifests/v9'',
         Header = [(''Accept'', ''application/vnd.docker.distribution.manifest.v2+json'')],
         Body = None\<rparr>"
  by (simp_all add: getManifest_request_def example_urls example_auth bind_def
      registryProtocol_def http_NewRequest_def manifestUrl_def Header_Add_def
      example_world_fields)

lemma example_put_requests:
  "uploadManifest_request example_world ''registry.example.com/hello-world:main'' example_manifest =
     Ok \<lparr>Method = ''PUT'', URL = ''https://registry.example.com/v2/hello-world/manifests/main'',
         Header = [(''Content-Type'', ''application/vnd.docker.distribution.manifest.v2+json'')],
         Body = Some example_body\<rparr>"
  "uploadManifest_request example_world ''registry.example.com/hello-world:latest'' example_manifest =
     Ok \<lparr>Method = ''PUT'', URL = ''https://registry.example.com/v2/hello-world/manifests/latest'',
         Header = [(''Content-Type'', ''application/vnd.docker.distribution.manifest.v2+json'')],
         Body = Some example_body\<rparr>"
  "uploadManifest_request example_world ''registry.example.com/hello-world:broken'' example_manifest =
     Ok \<lparr>Method = ''PUT'', URL = ''https://registry.example.com/v2/hello-world/manifests/broken'',
         Header = [(''Content-Type'', ''application/vnd.docker.distribution.manifest.v2+json'')],
         Body = Some example_body\<rparr>"
  by (simp_all add: uploadManifest_request_def example_urls example_auth bind_def
      registryProtocol_def http_NewRequest_def manifestUrl_def Header_Add_def
      example_world_fields)
    (simp_all add: example_manifest_def)

lemma example_get:
  "getManifest example_world ''registry.example.com/hello-world:v1'' = Ok example_manifest"
  "getManifest example_world ''registry.example.com/hello-world:v9'' = Err ''404 Not Found''"
  by (simp_all add: getManifest_def example_get_requests bind_def example_world_fields
      example_registry_def)

lemma example_put:
  "uploadManifest example_world ''registry.example.com/hello-world:main'' example_manifest = Ok ()"
  "uploadManifest example_world ''registry.example.com/hello-world:latest'' example_manifest = Ok ()"
  "uploadManifest example_world ''registry.example.com/hello-world:broken'' example_manifest
     = Err ''500 Internal Server Error''"
  by (simp_all add: uploadManifest_def example_put_requests bind_def example_world_fields
      example_registry_def)

lemma registryAuth_Do:
  "registryAuth (w\<lparr>Do := d\<rparr>) host = registryAuth w host"
  using dockerConfigAuth_cong [of "w\<lparr>Do := d\<rparr>" w host]
  by (simp add: registryAuth_def)

lemma offline_get_request:
  "getManifest_request offline_world url = getManifest_request example_world url"
  by (simp add: getManifest_request_def registryAuth_Do registryProtocol_def
      http_NewRequest_def offline_world_def)

theorem C7_success_exactly_on_status_witness:
  "getManifest example_world ''registry.example.com/hello-world:v1'' = Ok example_manifest
   \<and> getManifest example_world ''registry.example.com/hello-world:v9'' = Err ''404 Not Found''
   \<and> getManifest offline_world ''registry.example.com/hello-world:v1''
       = Err ''dial tcp: connection refused''
   \<and> uploadManifest example_world ''registry.example.com/hello-world:main'' example_manifest = Ok ()
   \<and> uploadManifest example_world ''registry.example.com/hello-world:broken'' example_manifest
       = Err ''500 Internal Server Error''"
proof -
  let ?get1 = "\<lparr>Method = ''GET'', URL = ''https://registry.example.com/v2/hello-world/manifests/v1'',
         Header = [(''Accept'', ''application/vnd.docker.distribution.manifest.v2+json'')],
         Body = None\<rparr>"
  let ?get9 = "\<lparr>Method = ''GET'', URL = ''https://registry.example.com/v2/hello-world/manifests/v9'',
         Header = [(''Accept'', ''application/vnd.docker.distribution.manifest.v2+json'')],
         Body = None\<rparr>"
  let ?put1 = "\<lparr>Method = ''PUT'', URL = ''https://registry.example.com/v2/hello-world/manifests/main'',
         Header = [(''Content-Type'', ''application/vnd.docker.distribution.manifest.v2+json'')],
         Body = Some example_body\<rparr>"
  let ?put2 = "\<lparr>Method = ''PUT'', URL = ''https://registry.example.com/v2/hello-world/manifests/broken'',
         Header = [(''Content-Type'', ''application/vnd.docker.distribution.manifest.v2+json'')],
         Body = Some example_body\<rparr>"
  let ?ok = "\<lparr>StatusCode = 200, Status = ''200 OK'', ReadAll_Body = Inr example_body\<rparr>"
  let ?missing = "\<lparr>StatusCode = 404, Status = ''404 Not Found'', ReadAll_Body = Inr []\<rparr>"
  let ?created = "\<lparr>StatusCode = 201, Status = ''201 Created'', ReadAll_Body = Inr []\<rparr>"
  let ?failed = "\<lparr>StatusCode = 500, Status = ''500 Internal Server Error'', ReadAll_Body = Inr []\<rparr>"
  have d: "Do example_world ?get1 = Inr ?ok" "Do example_world ?get9 = Inr ?missing"
    "Do example_world ?put1 = Inr ?created" "Do example_world ?put2 = Inr ?failed"
    "Do offline_world ?get1 = Inl ''dial tcp: connection refused''"
    by (simp_all add: example_world_fields example_registry_def offline_world_def)
  note c7 = C7_success_exactly_on_status
  have "getManifest example_world ''registry.example.com/hello-world:v1'' = Ok example_manifest"
    by (subst c7 [THEN conjunct1])
      (simp add: example_get_requests(1) d(1) example_world_fields(7))
  moreover have "getManifest example_world ''registry.example.com/hello-world:v9'' = Err (Status ?missing)"
    by (rule c7 [where req = ?get9 and bd = "[]", THEN conjunct2, THEN conjunct1, THEN mp])
      (simp add: example_get_requests(2) d(2))
  moreover have "getManifest offline_world ''registry.example.com/hello-world:v1''
      = Err ''dial tcp: connection refused''"
    by (rule c7 [where req = ?get1, THEN conjunct2, THEN conjunct2, THEN conjunct2,
          THEN conjunct1, THEN mp])
      (simp add: offline_get_request example_get_requests(1) d(5))
  moreover have "uploadManifest example_world ''registry.example.com/hello-world:main''
      example_manifest = Ok ()"
    by (subst c7 [THEN conjunct2, THEN conjunct2, THEN conjunct2, THEN conjunct2,
          THEN conjunct2, THEN conjunct2, THEN conjunct1])
      (simp add: example_put_requests(1) d(3))
  moreover have "uploadManifest example_world ''registry.example.com/hello-world:broken''
      example_manifest = Err (Status ?failed)"
    by (rule c7 [where preq = ?put2 and pbd = "[]", THEN conjunct2, THEN conjunct2,
          THEN conjunct2, THEN conjunct2, THEN conjunct2, THEN conjunct2, THEN conjunct2,
          THEN conjunct1, THEN mp])
      (simp add: example_put_requests(3) d(4))
  ultimately show ?thesis
    by simp
qed

section \<open>Properties of the orchestrator\<close>

lemma collect_first_failure:
  "\<forall>r\<in>set pre. r = Ok () \<Longrightarrow> i + length pre < n \<Longrightarrow>
   collect i n (pre @ Err e # post) = (UploadFailed e, Suc (i + length pre))"
  by (induction pre arbitrary: i) auto

lemma collect_all_ok:
  "\<forall>r\<in>set rs. r = Ok () \<Longrightarrow> i + length rs = n \<Longrightarrow> collect i n rs = (Success, n)"
  by (induction rs arbitrary: i) auto

lemma main_no_manifest:
  "\<forall>m. getManifest w (args ! 0) \<noteq> Ok m \<Longrightarrow>
   jobs (main w sched versionFlag args) = [] \<and> workers (main w sched versionFlag args) = 0
   \<and> collected (main w sched versionFlag args) = 0
   \<and> status (main w sched versionFlag args) \<noteq> Success"
  by (auto simp: main_def Let_def split: outcome.splits)

lemma main_fetch_failed:
  "\<not> versionFlag \<Longrightarrow> 2 \<le> length args \<Longrightarrow> getManifest w (args ! 0) = Err e \<Longrightarrow>
   main w sched versionFlag args =
     \<lparr>status = FetchFailed e, workers = 0, jobs = [], collected = 0\<rparr>"
  by (simp add: main_def)

lemma main_fetched:
  "\<not> versionFlag \<Longrightarrow> 2 \<le> length args \<Longrightarrow> getManifest w (args ! 0) = Ok m \<Longrightarrow>
   main w sched versionFlag args =
     \<lparr>status = fst (collect 0 (length args - 1)
         (map (manifestUploadWorker w)
            (sched (map (\<lambda>t. \<lparr>Manifest = m, Image = t\<rparr>) (drop 1 args))))),
      workers = min 10 (length args - 1),
      jobs = map (\<lambda>t. \<lparr>Manifest = m, Image = t\<rparr>) (drop 1 args),
      collected = snd (collect 0 (length args - 1)
         (map (manifestUploadWorker w)
            (sched (map (\<lambda>t. \<lparr>Manifest = m, Image = t\<rparr>) (drop 1 args)))))\<rparr>"
  by (auto simp: main_def Let_def split: prod.splits)

text \<open>
  Claim C8. When the fetch from the source reference does not return a manifest, the run
  ends without starting a worker and without sending a job: no upload is attempted. When
  the fetch returns an error, the run logs that error and exits with status 1.
\<close>

theorem C8_no_upload_after_failed_fetch:
  "(\<not> versionFlag \<and> 2 \<le> length args \<and> (\<forall>m. getManifest w (args ! 0) \<noteq> Ok m) \<longrightarrow>
      jobs (main w sched versionFlag args) = [] \<and> workers (main w sched versionFlag args) = 0
      \<and> collected (main w sched versionFlag args) = 0
      \<and> status (main w sched versionFlag args) \<noteq> Success)
   \<and> (\<not> versionFlag \<and> 2 \<le> length args \<and> getManifest w (args ! 0) = Err e \<longrightarrow>
      main w sched versionFlag args =
        \<lparr>status = FetchFailed e, workers = 0, jobs = [], collected = 0\<rparr>)"
  using main_no_manifest [of w args sched versionFlag] main_fetch_failed [of versionFlag args w e sched]
  by blast

theorem C8_no_upload_after_failed_fetch_witness:
  "getManifest example_world ''registry.example.com/hello-world:v9'' = Err ''404 Not Found''
   \<and> main example_world (\<lambda>js. js) False
        [''registry.example.com/hello-world:v9'', ''registry.example.com/hello-world:main'',
         ''registry.example.com/hello-world:latest'']
      = \<lparr>status = FetchFailed ''404 Not Found'', workers = 0, jobs = [], collected = 0\<rparr>"
proof -
  let ?args = "[''registry.example.com/hello-world:v9'', ''registry.example.com/hello-world:main'',
         ''registry.example.com/hello-world:latest'']"
  have h: "\<not> False \<and> 2 \<le> length ?args \<and> getManifest example_world (?args ! 0) = Err ''404 Not Found''"
    by (simp add: example_get(2))
  have "main example_world (\<lambda>js. js) False ?args
      = \<lparr>status = FetchFailed ''404 Not Found'', workers = 0, jobs = [], collected = 0\<rparr>"
    by (rule C8_no_upload_after_failed_fetch [THEN conjunct2, THEN mp]) (rule h)
  then show ?thesis
    by (simp add: example_get(2))
qed

text \<open>
  Claim C1, as the code has it. When the fetch has succeeded and the results arrive in an
  order whose first failure \<open>e\<close> comes after the successes \<open>pre\<close> and before the results
  \<open>post\<close>, the run reports failure with \<open>e\<close>, the first failure in collection order, and
  exits at once: it has received the results up to and including that failure, and the
  \<open>length post\<close> results after it are never received.
\<close>

theorem C1_exit_at_first_failure:
  "\<not> versionFlag \<and> 2 \<le> length args \<and> getManifest w (args ! 0) = Ok m
   \<and> map (manifestUploadWorker w) (sched (map (\<lambda>t. \<lparr>Manifest = m, Image = t\<rparr>) (drop 1 args)))
       = pre @ Err e # post
   \<and> (\<forall>r\<in>set pre. r = Ok ())
   \<and> length pre + 1 + length post = length args - 1
   \<longrightarrow> status (main w sched versionFlag args) = UploadFailed e
       \<and> collected (main w sched versionFlag args) = length pre + 1
       \<and> length (jobs (main w sched versionFlag args)) = length pre + 1 + length post"
proof
  assume a: "\<not> versionFlag \<and> 2 \<le> length args \<and> getManifest w (args ! 0) = Ok m
   \<and> map (manifestUploadWorker w) (sched (map (\<lambda>t. \<lparr>Manifest = m, Image = t\<rparr>) (drop 1 args)))
       = pre @ Err e # post
   \<and> (\<forall>r\<in>set pre. r = Ok ())
   \<and> length pre + 1 + length post = length args - 1"
  then have "0 + length pre < length args - 1" "\<forall>r\<in>set pre. r = Ok ()"
    by simp_all
  then have c: "collect 0 (length args - 1) (pre @ Err e # post) = (UploadFailed e, Suc (length pre))"
    using collect_first_failure [of pre 0 "length args - 1" e post] by simp
  have "main w sched versionFlag args =
     \<lparr>status = fst (collect 0 (length args - 1) (pre @ Err e # post)),
      workers = min 10 (length args - 1),
      jobs = map (\<lambda>t. \<lparr>Manifest = m, Image = t\<rparr>) (drop 1 args),
      collected = snd (collect 0 (length args - 1) (pre @ Err e # post))\<rparr>"
    using a main_fetched [of versionFlag args w m sched] by simp
  then show "status (main w sched versionFlag args) = UploadFailed e
       \<and> collected (main w sched versionFlag args) = length pre + 1
       \<and> length (jobs (main w sched versionFlag args)) = length pre + 1 + length post"
    using a c by simp
qed

theorem C1_exit_at_first_failure_witness:
  "status (main example_world (\<lambda>js. js) False
        [''registry.example.com/hello-world:v1'', ''registry.example.com/hello-world:main'',
         ''registry.example.com/hello-world:broken'', ''registry.example.com/hello-world:latest''])
     = UploadFailed ''500 Internal Server Error''
   \<and> collected (main example_world (\<lambda>js. js) False
        [''registry.example.com/hello-world:v1'', ''registry.example.com/hello-world:main'',
         ''registry.example.com/hello-world:broken'', ''registry.example.com/hello-world:latest''])
     = 2
   \<and> length (jobs (main example_world (\<lambda>js. js) False
        [''registry.example.com/hello-world:v1'', ''registry.example.com/hello-world:main'',
         ''registry.example.com/hello-world:broken'', ''registry.example.com/hello-world:latest'']))
     = 3"
proof -
  let ?args = "[''registry.example.com/hello-world:v1'', ''registry.example.com/hello-world:main'',
         ''registry.example.com/hello-world:broken'', ''registry.example.com/hello-world:latest'']"
  have h: "\<not> False \<and> 2 \<le> length ?args \<and> getManifest example_world (?args ! 0) = Ok example_manifest
   \<and> map (manifestUploadWorker example_world)
        ((\<lambda>js. js) (map (\<lambda>t. \<lparr>Manifest = example_manifest, Image = t\<rparr>) (drop 1 ?args)))
       = [Ok ()] @ Err ''500 Internal Server Error'' # [Ok ()]
   \<and> (\<forall>r\<in>set [Ok ()]. r = Ok ())
   \<and> length [Ok ()] + 1 + length [Ok ()] = length ?args - 1"
    by (simp add: example_get(1) example_put manifestUploadWorker_def)
  show ?thesis
    using C1_exit_at_first_failure [where w = example_world and sched = "\<lambda>js. js"
        and versionFlag = False and args = ?args and m = example_manifest
        and pre = "[Ok ()]" and e = "''500 Internal Server Error''" and post = "[Ok ()]",
        THEN mp, OF h]
    by simp
qed

text \<open>
  Claim C1 as it is written fails: with two targets whose first result is a failure, the
  run ends after one result, with two jobs dispatched.
\<close>

theorem C1_waits_for_all_counterexample:
  "status (main example_world (\<lambda>js. js) False
        [''registry.example.com/hello-world:v1'', ''registry.example.com/hello-world:broken'',
         ''registry.example.com/hello-world:main''])
     = UploadFailed ''500 Internal Server Error''
   \<and> length (jobs (main example_world (\<lambda>js. js) False
        [''registry.example.com/hello-world:v1'', ''registry.example.com/hello-world:broken'',
         ''registry.example.com/hello-world:main''])) = 2
   \<and> collected (main example_world (\<lambda>js. js) False
        [''registry.example.com/hello-world:v1'', ''registry.example.com/hello-world:broken'',
         ''registry.example.com/hello-world:main'']) = 1
   \<and> collected (main example_world (\<lambda>js. js) False
        [''registry.example.com/hello-world:v1'', ''registry.example.com/hello-world:broken'',
         ''registry.example.com/hello-world:main''])
      \<noteq> length (jobs (main example_world (\<lambda>js. js) False
        [''registry.example.com/hello-world:v1'', ''registry.example.com/hello-world:broken'',
         ''registry.example.com/hello-world:main'']))"
proof -
  let ?args = "[''registry.example.com/hello-world:v1'', ''registry.example.com/hello-world:broken'',
         ''registry.example.com/hello-world:main'']"
  have "main example_world (\<lambda>js. js) False ?args =
      \<lparr>status = UploadFailed ''500 Internal Server Error'', workers = 2,
       jobs = [\<lparr>Manifest = example_manifest, Image = ''registry.example.com/hello-world:broken''\<rparr>,
               \<lparr>Manifest = example_manifest, Image = ''registry.example.com/hello-world:main''\<rparr>],
       collected = 1\<rparr>"
    by (simp add: main_def example_get(1) example_put manifestUploadWorker_def)
  then show ?thesis
    by simp
qed

lemma member_Descriptor:
  "member ''mediaType'' [(''mediaType'', a), (''digest'', b), (''size'', c)] = a"
  "member ''digest'' [(''mediaType'', a), (''digest'', b), (''size'', c)] = b"
  "member ''size'' [(''mediaType'', a), (''digest'', b), (''size'', c)] = c"
  by (simp_all add: member_def lower_def)

lemma member_Manifest:
  "member ''mediaType'' [(''mediaType'', a), (''schemaVersion'', b), (''config'', c), (''layers'', d)] = a"
  "member ''schemaVersion'' [(''mediaType'', a), (''schemaVersion'', b), (''config'', c), (''layers'', d)] = b"
  "member ''config'' [(''mediaType'', a), (''schemaVersion'', b), (''config'', c), (''layers'', d)] = c"
  "member ''layers'' [(''mediaType'', a), (''schemaVersion'', b), (''config'', c), (''layers'', d)] = d"
  by (simp_all add: member_def lower_def)

lemma decode_encode_Descriptor: "decode_Descriptor (encode_Descriptor d) = Some d"
  by (simp add: decode_Descriptor_def encode_Descriptor_def member_Descriptor decode_string_def
      decode_int_def)

lemma those_decode_encode:
  "those (map (decode_Descriptor \<circ> encode_Descriptor) ls) = Some ls"
  by (induction ls) (simp_all add: decode_encode_Descriptor)

lemma decode_encode_Layers:
  "decode_Layers (case ls of None \<Rightarrow> DNull | Some l \<Rightarrow> DArray (map encode_Descriptor l)) = Some ls"
  by (cases ls) (simp_all add: decode_Layers_def those_decode_encode)

text \<open>Reading the encoding of a manifest gives the manifest, field for field.\<close>

lemma decode_encode_Manifest: "decode_Manifest (encode_Manifest m) = Some m"
  by (simp add: decode_Manifest_def encode_Manifest_def member_Manifest decode_string_def
      decode_int_def decode_encode_Descriptor decode_encode_Layers)

lemma plain_encode_Descriptor: "plain (encode_Descriptor d)"
  by (simp add: encode_Descriptor_def lower_def)

lemma plain_encode_Manifest: "plain (encode_Manifest m)"
  by (cases "Layers m") (simp_all add: encode_Manifest_def lower_def plain_encode_Descriptor)

lemma descriptor_text_encode:
  "descriptor_text (mt, dg, sz) = encode_Descriptor \<lparr>desc_MediaType = mt, Digest = dg, Size = sz\<rparr>"
  by (simp add: descriptor_text_def encode_Descriptor_def)

lemma manifest_text_encode:
  "manifest_text mt sv cfg ls =
     encode_Manifest
       \<lparr>MediaType = mt, SchemaVersion = sv,
        Config = (case cfg of (a, b, c) \<Rightarrow> \<lparr>desc_MediaType = a, Digest = b, Size = c\<rparr>),
        Layers = Some (map (\<lambda>(a, b, c). \<lparr>desc_MediaType = a, Digest = b, Size = c\<rparr>) ls)\<rparr>"
  by (cases cfg) (auto simp: manifest_text_def encode_Manifest_def descriptor_text_encode)

text \<open>
  A manifest read from a text in the usual form is written as that text: the same
  members, under the same names, with the same values.
\<close>

lemma encode_decode_manifest_text:
  assumes "decode_Manifest (manifest_text mt sv cfg ls) = Some m"
  shows "encode_Manifest m = manifest_text mt sv cfg ls"
  using assms unfolding manifest_text_encode decode_encode_Manifest by simp

lemma plain_manifest_text: "plain (manifest_text mt sv cfg ls)"
  unfolding manifest_text_encode by (rule plain_encode_Manifest)

lemma library_decodes_Inr:
  "library_decodes w parse \<Longrightarrow> parse bd = Inr d \<Longrightarrow> plain d \<Longrightarrow> decode_Manifest d = Some m \<Longrightarrow>
   Unmarshal_Manifest w bd = Inr m"
  unfolding library_decodes_def by fastforce

lemma library_decodes_Some:
  "library_decodes w parse \<Longrightarrow> parse bd = Inr d \<Longrightarrow> plain d \<Longrightarrow> Unmarshal_Manifest w bd = Inr m \<Longrightarrow>
   decode_Manifest d = Some m"
  unfolding library_decodes_def
  by (cases "decode_Manifest d") fastforce+

lemma worker_publishes:
  assumes "Marshal_Manifest w m = Inr jd"
  shows "manifestUploadWorker w \<lparr>Manifest = m, Image = target\<rparr> = Ok () \<longleftrightarrow>
     (\<exists>req resp rb. uploadManifest_request w target m = Ok req \<and> Method req = ''PUT''
        \<and> Body req = Some jd \<and> map_of (Header req) ''Content-Type'' = Some (MediaType m)
        \<and> Do w req = Inr resp \<and> ReadAll_Body resp = Inr rb \<and> StatusCode resp = 201)"
  using assms uploadManifest_Ok_iff [of w target m] uploadManifest_request_sends [of w target m]
  by (auto simp: manifestUploadWorker_def)

text \<open>
  Claim C9. Let the fetch return the manifest \<open>m\<close>, in a world whose library reads and
  writes manifests by the tags of the struct. Every job carries \<open>m\<close>, one job for each
  target. A worker's publish of a job succeeds exactly when the registry answers 201 to
  the PUT request whose body is the encoding of \<open>m\<close> and whose content type is the media
  type of \<open>m\<close>; every request built for a target has that body. The body sent reads back
  as \<open>m\<close>: media type, schema version, config descriptor and layer descriptors are those
  of the text received. When the text received is plain, \<open>m\<close> holds the members of that
  text; when it is a manifest in the usual form, the text sent is the text received.
\<close>

theorem C9_round_trip_preserves_fields:
  "\<not> versionFlag \<and> 2 \<le> length args \<and> getManifest w (args ! 0) = Ok m
   \<and> library_decodes w parse \<and> library_encodes w parse render m \<longrightarrow>
     (\<exists>req resp bd. getManifest_request w (args ! 0) = Ok req \<and> Do w req = Inr resp
        \<and> ReadAll_Body resp = Inr bd \<and> Unmarshal_Manifest w bd = Inr m)
     \<and> map Manifest (jobs (main w sched versionFlag args)) = replicate (length args - 1) m
     \<and> map Image (jobs (main w sched versionFlag args)) = drop 1 args
     \<and> (\<forall>j \<in> set (jobs (main w sched versionFlag args)).
          (manifestUploadWorker w j = Ok ()) =
          (\<exists>req resp rb. uploadManifest_request w (Image j) m = Ok req \<and> Method req = ''PUT''
             \<and> Body req = Some (render (encode_Manifest m))
             \<and> map_of (Header req) ''Content-Type'' = Some (MediaType m)
             \<and> Do w req = Inr resp \<and> ReadAll_Body resp = Inr rb \<and> StatusCode resp = 201))
     \<and> (\<forall>target req. uploadManifest_request w target m = Ok req \<longrightarrow>
          Body req = Some (render (encode_Manifest m)))
     \<and> Unmarshal_Manifest w (render (encode_Manifest m)) = Inr m
     \<and> decode_Manifest (encode_Manifest m) = Some m
     \<and> (\<forall>req resp bd d. getManifest_request w (args ! 0) = Ok req \<and> Do w req = Inr resp
          \<and> ReadAll_Body resp = Inr bd \<and> parse bd = Inr d \<and> plain d \<longrightarrow>
            decode_Manifest d = Some m)
     \<and> (\<forall>req resp bd mt sv cfg ls. getManifest_request w (args ! 0) = Ok req
          \<and> Do w req = Inr resp \<and> ReadAll_Body resp = Inr bd
          \<and> parse bd = Inr (manifest_text mt sv cfg ls) \<longrightarrow>
            encode_Manifest m = manifest_text mt sv cfg ls)"
proof
  assume a: "\<not> versionFlag \<and> 2 \<le> length args \<and> getManifest w (args ! 0) = Ok m
   \<and> library_decodes w parse \<and> library_encodes w parse render m"
  then have dec: "library_decodes w parse"
    and mar: "Marshal_Manifest w m = Inr (render (encode_Manifest m))"
    and rd: "parse (render (encode_Manifest m)) = Inr (encode_Manifest m)"
    by (simp_all add: library_encodes_def)
  obtain req0 resp0 bd0 where f: "getManifest_request w (args ! 0) = Ok req0"
      "Do w req0 = Inr resp0" "ReadAll_Body resp0 = Inr bd0" "Unmarshal_Manifest w bd0 = Inr m"
    using a getManifest_Ok_iff [of w "args ! 0" m] by blast
  have js: "jobs (main w sched versionFlag args)
      = map (\<lambda>t. \<lparr>Manifest = m, Image = t\<rparr>) (drop 1 args)"
    using a main_fetched [of versionFlag args w m sched] by simp
  have c1: "\<exists>req resp bd. getManifest_request w (args ! 0) = Ok req \<and> Do w req = Inr resp
        \<and> ReadAll_Body resp = Inr bd \<and> Unmarshal_Manifest w bd = Inr m"
    using f by blast
  have c2: "map Manifest (jobs (main w sched versionFlag args)) = replicate (length args - 1) m"
    unfolding js by (simp add: map_replicate_const comp_def)
  have c3: "map Image (jobs (main w sched versionFlag args)) = drop 1 args"
    unfolding js by (simp add: comp_def)
  have c4: "\<forall>j \<in> set (jobs (main w sched versionFlag args)).
          (manifestUploadWorker w j = Ok ()) =
          (\<exists>req resp rb. uploadManifest_request w (Image j) m = Ok req \<and> Method req = ''PUT''
             \<and> Body req = Some (render (encode_Manifest m))
             \<and> map_of (Header req) ''Content-Type'' = Some (MediaType m)
             \<and> Do w req = Inr resp \<and> ReadAll_Body resp = Inr rb \<and> StatusCode resp = 201)"
  proof
    fix j
    assume "j \<in> set (jobs (main w sched versionFlag args))"
    then obtain t where j: "j = \<lparr>Manifest = m, Image = t\<rparr>"
      unfolding js by auto
    show "(manifestUploadWorker w j = Ok ()) =
          (\<exists>req resp rb. uploadManifest_request w (Image j) m = Ok req \<and> Method req = ''PUT''
             \<and> Body req = Some (render (encode_Manifest m))
             \<and> map_of (Header req) ''Content-Type'' = Some (MediaType m)
             \<and> Do w req = Inr resp \<and> ReadAll_Body resp = Inr rb \<and> StatusCode resp = 201)"
      unfolding j using worker_publishes [OF mar, of t] by simp
  qed
  have c5: "\<forall>target req. uploadManifest_request w target m = Ok req \<longrightarrow>
          Body req = Some (render (encode_Manifest m))"
    using uploadManifest_request_sends mar by fastforce
  have c6: "Unmarshal_Manifest w (render (encode_Manifest m)) = Inr m"
    using library_decodes_Inr [OF dec rd plain_encode_Manifest decode_encode_Manifest] .
  have c7: "\<forall>req resp bd d. getManifest_request w (args ! 0) = Ok req \<and> Do w req = Inr resp
          \<and> ReadAll_Body resp = Inr bd \<and> parse bd = Inr d \<and> plain d \<longrightarrow>
            decode_Manifest d = Some m"
  proof (intro allI impI)
    fix req resp bd d
    assume h: "getManifest_request w (args ! 0) = Ok req \<and> Do w req = Inr resp
          \<and> ReadAll_Body resp = Inr bd \<and> parse bd = Inr d \<and> plain d"
    then have "bd = bd0"
      using f by simp
    then show "decode_Manifest d = Some m"
      using h f(4) library_decodes_Some [OF dec, of bd d m] by simp
  qed
  have c8: "\<forall>req resp bd mt sv cfg ls. getManifest_request w (args ! 0) = Ok req
          \<and> Do w req = Inr resp \<and> ReadAll_Body resp = Inr bd
          \<and> parse bd = Inr (manifest_text mt sv cfg ls) \<longrightarrow>
            encode_Manifest m = manifest_text mt sv cfg ls"
  proof (intro allI impI)
    fix req resp bd mt sv cfg ls
    assume h: "getManifest_request w (args ! 0) = Ok req
          \<and> Do w req = Inr resp \<and> ReadAll_Body resp = Inr bd
          \<and> parse bd = Inr (manifest_text mt sv cfg ls)"
    then have "decode_Manifest (manifest_text mt sv cfg ls) = Some m"
      using c7 plain_manifest_text [of mt sv cfg ls] by blast
    then show "encode_Manifest m = manifest_text mt sv cfg ls"
      by (rule encode_decode_manifest_text)
  qed
  show "(\<exists>req resp bd. getManifest_request w (args ! 0) = Ok req \<and> Do w req = Inr resp
        \<and> ReadAll_Body resp = Inr bd \<and> Unmarshal_Manifest w bd = Inr m)
     \<and> map Manifest (jobs (main w sched versionFlag args)) = replicate (length args - 1) m
     \<and> map Image (jobs (main w sched versionFlag args)) = drop 1 args
     \<and> (\<forall>j \<in> set (jobs (main w sched versionFlag args)).
          (manifestUploadWorker w j = Ok ()) =
          (\<exists>req resp rb. uploadManifest_request w (Image j) m = Ok req \<and> Method req = ''PUT''
             \<and> Body req = Some (render (encode_Manifest m))
             \<and> map_of (Header req) ''Content-Type'' = Some (MediaType m)
             \<and> Do w req = Inr resp \<and> ReadAll_Body resp = Inr rb \<and> StatusCode resp = 201))
     \<and> (\<forall>target req. uploadManifest_request w target m = Ok req \<longrightarrow>
          Body req = Some (render (encode_Manifest m)))
     \<and> Unmarshal_Manifest w (render (encode_Manifest m)) = Inr m
     \<and> decode_Manifest (encode_Manifest m) = Some m
     \<and> (\<forall>req resp bd d. getManifest_request w (args ! 0) = Ok req \<and> Do w req = Inr resp
          \<and> ReadAll_Body resp = Inr bd \<and> parse bd = Inr d \<and> plain d \<longrightarrow>
            decode_Manifest d = Some m)
     \<and> (\<forall>req resp bd mt sv cfg ls. getManifest_request w (args ! 0) = Ok req
          \<and> Do w req = Inr resp \<and> ReadAll_Body resp = Inr bd
          \<and> parse bd = Inr (manifest_text mt sv cfg ls) \<longrightarrow>
            encode_Manifest m = manifest_text mt sv cfg ls)"
    using c1 c2 c3 c4 c5 c6 c7 c8 decode_encode_Manifest [of m] by blast
qed

lemma example_texts:
  "encode_Manifest example_manifest =
     manifest_text ''application/vnd.docker.distribution.manifest.v2+json'' 2
       (''application/vnd.docker.container.image.v1+json'', ''sha256:feb5d9fea6a5'', 1469)
       [(''application/vnd.docker.image.rootfs.diff.tar.gzip'', ''sha256:2db29710123e'', 2479)]"
  by (simp add: manifest_text_encode example_manifest_def)

lemma example_library:
  "library_decodes example_world example_parse"
  "library_encodes example_world example_parse example_render example_manifest"
proof -
  show "library_decodes example_world example_parse"
    unfolding library_decodes_def
  proof (intro allI impI)
    fix bd d
    assume "example_parse bd = Inr d \<and> plain d"
    then have "bd = example_body" "d = encode_Manifest example_manifest"
      by (auto simp: example_parse_def example_texts split: if_splits)
    then show "case decode_Manifest d of
        None \<Rightarrow> \<exists>err. Unmarshal_Manifest example_world bd = Inl err
      | Some m \<Rightarrow> Unmarshal_Manifest example_world bd = Inr m"
      by (simp add: decode_encode_Manifest example_world_fields)
  qed
  show "library_encodes example_world example_parse example_render example_manifest"
    by (simp add: library_encodes_def example_world_fields example_texts example_render_def
        example_parse_def)
qed

theorem C9_round_trip_preserves_fields_witness:
  "getManifest example_world ''registry.example.com/hello-world:v1'' = Ok example_manifest
   \<and> library_decodes example_world example_parse
   \<and> library_encodes example_world example_parse example_render example_manifest
   \<and> map Manifest (jobs (main example_world (\<lambda>js. js) False
        [''registry.example.com/hello-world:v1'', ''registry.example.com/hello-world:main'',
         ''registry.example.com/hello-world:latest'']))
       = [example_manifest, example_manifest]
   \<and> map Image (jobs (main example_world (\<lambda>js. js) False
        [''registry.example.com/hello-world:v1'', ''registry.example.com/hello-world:main'',
         ''registry.example.com/hello-world:latest'']))
       = [''registry.example.com/hello-world:main'', ''registry.example.com/hello-world:latest'']
   \<and> example_render (encode_Manifest example_manifest) = example_body
   \<and> Unmarshal_Manifest example_world example_body = Inr example_manifest
   \<and> uploadManifest_request example_world ''registry.example.com/hello-world:main'' example_manifest =
       Ok \<lparr>Method = ''PUT'', URL = ''https://registry.example.com/v2/hello-world/manifests/main'',
           Header = [(''Content-Type'', ''application/vnd.docker.distribution.manifest.v2+json'')],
           Body = Some example_body\<rparr>
   \<and> manifestUploadWorker example_world
        \<lparr>Manifest = example_manifest, Image = ''registry.example.com/hello-world:main''\<rparr> = Ok ()"
proof -
  let ?args = "[''registry.example.com/hello-world:v1'', ''registry.example.com/hello-world:main'',
         ''registry.example.com/hello-world:latest'']"
  have h: "\<not> False \<and> 2 \<le> length ?args \<and> getManifest example_world (?args ! 0) = Ok example_manifest
      \<and> library_decodes example_world example_parse
      \<and> library_encodes example_world example_parse example_render example_manifest"
    by (simp add: example_get(1) example_library)
  note t = C9_round_trip_preserves_fields [where w = example_world and sched = "\<lambda>js. js"
      and versionFlag = False and args = ?args and m = example_manifest
      and parse = example_parse and render = example_render, THEN mp, OF h]
  have r: "example_render (encode_Manifest example_manifest) = example_body"
    by (simp add: example_texts example_render_def)
  have "map Manifest (jobs (main example_world (\<lambda>js. js) False ?args)) = [example_manifest, example_manifest]"
    using t [THEN conjunct2, THEN conjunct1] by (simp add: numeral_2_eq_2)
  moreover have "map Image (jobs (main example_world (\<lambda>js. js) False ?args))
      = [''registry.example.com/hello-world:main'', ''registry.example.com/hello-world:latest'']"
    using t [THEN conjunct2, THEN conjunct2, THEN conjunct1] by simp
  moreover have "Unmarshal_Manifest example_world example_body = Inr example_manifest"
    using t [THEN conjunct2, THEN conjunct2, THEN conjunct2, THEN conjunct2, THEN conjunct2,
        THEN conjunct1] r by simp
  ultimately show ?thesis
    using r by (simp add: example_get(1) example_library example_put_requests(1)
        manifestUploadWorker_def example_put(1))
qed

end
